theory Spec2Isabelle
  imports Main "HOL-Library.Monad_Syntax"
begin

section \<open>JavaScript values\<close>

text \<open>
  The values that \<^verbatim>\<open>JSON.parse\<close> returns. Numbers are the integers (timestamps in
  milliseconds, counters, token counts); an object is its list of properties, read by name.
  The JavaScript value \<^verbatim>\<open>undefined\<close> is \<open>None\<close> of \<open>json option\<close>.
\<close>

datatype json =
    JNull
  | JBool bool
  | JNum int
  | JStr string
  | JArr "json list"
  | JObj "(string \<times> json) list"

datatype js_error =
    Error string
  | TypeError
  | SyntaxError
  | QuotaExceededError

text \<open>Truthiness, as \<^verbatim>\<open>!v\<close> and \<^verbatim>\<open>if (v)\<close> decide it.\<close>

fun truthy :: "json option \<Rightarrow> bool" where
  "truthy None = False"
| "truthy (Some JNull) = False"
| "truthy (Some (JBool b)) = b"
| "truthy (Some (JNum n)) = (n \<noteq> 0)"
| "truthy (Some (JStr s)) = (s \<noteq> [])"
| "truthy (Some (JArr xs)) = True"
| "truthy (Some (JObj kvs)) = True"

text \<open>
  Reading a named property \<^verbatim>\<open>v.k\<close>. On \<^verbatim>\<open>null\<close> and \<^verbatim>\<open>undefined\<close> it throws a
  TypeError; on an object it is the property or \<^verbatim>\<open>undefined\<close>; on a number, a boolean, a
  string or an array none of the names the program reads exists.
\<close>

fun get_prop :: "json option \<Rightarrow> string \<Rightarrow> js_error + json option" where
  "get_prop None k = Inl TypeError"
| "get_prop (Some JNull) k = Inl TypeError"
| "get_prop (Some (JObj kvs)) k = Inr (map_of kvs k)"
| "get_prop (Some v) k = Inr None"

text \<open>The same read where the program has already excluded \<^verbatim>\<open>null\<close> and \<^verbatim>\<open>undefined\<close>.\<close>

definition field :: "json option \<Rightarrow> string \<Rightarrow> json option" where
  "field v k = (case get_prop v k of Inl e \<Rightarrow> None | Inr r \<Rightarrow> r)"

text \<open>Optional chaining \<^verbatim>\<open>v?.k\<close>: \<^verbatim>\<open>undefined\<close> when \<open>v\<close> is \<^verbatim>\<open>null\<close> or \<^verbatim>\<open>undefined\<close>.\<close>

definition opt_chain :: "json option \<Rightarrow> string \<Rightarrow> json option" where
  "opt_chain v k = field v k"

definition typeof_number :: "json option \<Rightarrow> bool" where
  "typeof_number v = (case v of Some (JNum n) \<Rightarrow> True | _ \<Rightarrow> False)"

definition Array_isArray :: "json option \<Rightarrow> bool" where
  "Array_isArray v = (case v of Some (JArr xs) \<Rightarrow> True | _ \<Rightarrow> False)"


section \<open>The data model (models/chat.interface.ts)\<close>

datatype MessageSender = USER | AI | SYSTEM

record MessageMetadata =
  tokens :: "int option"
  processingTime :: "int option"
  model :: "string option"
  promptTokens :: "int option"
  completionTokens :: "int option"
  totalTokens :: "int option"
  finishReason :: "string option"

record ChatMessage =
  id_msg :: string
  sender :: MessageSender
  content :: string
  timestamp :: int
  isError :: "bool option"
  isPending :: "bool option"
  metadata_msg :: "MessageMetadata option"

record ConversationMetadata =
  id_conv :: string
  title :: "string option"
  createdAt :: int
  updatedAt :: int
  totalMessages :: int
  userMessageCount :: int
  aiMessageCount :: int
  totalTokensUsed :: "int option"
  tags :: "string list option"
  isFavorite :: "bool option"
  isArchived :: "bool option"

record ChatHistory =
  messages :: "ChatMessage list"
  metadata :: ConversationMetadata

subsection \<open>Conversations as JSON values\<close>

text \<open>
  What \<^verbatim>\<open>JSON.stringify\<close> writes for a value of each interface: the declared properties,
  an optional property only when it is set.
\<close>

definition opt_prop :: "string \<Rightarrow> ('a \<Rightarrow> json) \<Rightarrow> 'a option \<Rightarrow> (string \<times> json) list" where
  "opt_prop k enc v = (case v of None \<Rightarrow> [] | Some x \<Rightarrow> [(k, enc x)])"

fun json_of_MessageSender :: "MessageSender \<Rightarrow> json" where
  "json_of_MessageSender USER = JStr ''user''"
| "json_of_MessageSender AI = JStr ''ai''"
| "json_of_MessageSender SYSTEM = JStr ''system''"

definition json_of_MessageMetadata :: "MessageMetadata \<Rightarrow> json" where
  "json_of_MessageMetadata m = JObj (
     opt_prop ''tokens'' JNum (tokens m) @
     opt_prop ''processingTime'' JNum (processingTime m) @
     opt_prop ''model'' JStr (model m) @
     opt_prop ''promptTokens'' JNum (promptTokens m) @
     opt_prop ''completionTokens'' JNum (completionTokens m) @
     opt_prop ''totalTokens'' JNum (totalTokens m) @
     opt_prop ''finishReason'' JStr (finishReason m))"

definition json_of_ChatMessage :: "ChatMessage \<Rightarrow> json" where
  "json_of_ChatMessage m = JObj (
     [(''id'', JStr (id_msg m)),
      (''sender'', json_of_MessageSender (sender m)),
      (''content'', JStr (content m)),
      (''timestamp'', JNum (timestamp m))] @
     opt_prop ''isError'' JBool (isError m) @
     opt_prop ''isPending'' JBool (isPending m) @
     opt_prop ''metadata'' json_of_MessageMetadata (metadata_msg m))"

definition json_of_ConversationMetadata :: "ConversationMetadata \<Rightarrow> json" where
  "json_of_ConversationMetadata m = JObj (
     [(''id'', JStr (id_conv m))] @
     opt_prop ''title'' JStr (title m) @
     [(''createdAt'', JNum (createdAt m)),
      (''updatedAt'', JNum (updatedAt m)),
      (''totalMessages'', JNum (totalMessages m)),
      (''userMessageCount'', JNum (userMessageCount m)),
      (''aiMessageCount'', JNum (aiMessageCount m))] @
     opt_prop ''totalTokensUsed'' JNum (totalTokensUsed m) @
     opt_prop ''tags'' (\<lambda>ts. JArr (map JStr ts)) (tags m) @
     opt_prop ''isFavorite'' JBool (isFavorite m) @
     opt_prop ''isArchived'' JBool (isArchived m))"

definition json_of_ChatHistory :: "ChatHistory \<Rightarrow> json" where
  "json_of_ChatHistory c = JObj
     [(''messages'', JArr (map json_of_ChatMessage (messages c))),
      (''metadata'', json_of_ConversationMetadata (metadata c))]"

text \<open>
  The type assertion \<^verbatim>\<open>JSON.parse(text) as ChatHistory\<close> checks nothing at run time. The
  operations below are modelled on values of the declared interfaces, so the assertion is
  a partial function: it reads the declared properties at their declared types and
  succeeds exactly on the values that are the JSON form of a \<open>ChatHistory\<close>. Where the
  program lets any other value through, the model has no result (\<open>None\<close>).
\<close>

definition req_num :: "json option \<Rightarrow> int option" where
  "req_num v = (case v of Some (JNum n) \<Rightarrow> Some n | _ \<Rightarrow> None)"

definition req_str :: "json option \<Rightarrow> string option" where
  "req_str v = (case v of Some (JStr s) \<Rightarrow> Some s | _ \<Rightarrow> None)"

definition opt_num :: "json option \<Rightarrow> int option option" where
  "opt_num v = (case v of None \<Rightarrow> Some None | Some (JNum n) \<Rightarrow> Some (Some n) | _ \<Rightarrow> None)"

definition opt_str :: "json option \<Rightarrow> string option option" where
  "opt_str v = (case v of None \<Rightarrow> Some None | Some (JStr s) \<Rightarrow> Some (Some s) | _ \<Rightarrow> None)"

definition opt_bool :: "json option \<Rightarrow> bool option option" where
  "opt_bool v = (case v of None \<Rightarrow> Some None | Some (JBool b) \<Rightarrow> Some (Some b) | _ \<Rightarrow> None)"

fun read_strs :: "json list \<Rightarrow> string list option" where
  "read_strs [] = Some []"
| "read_strs (JStr s # vs) = map_option (\<lambda>ss. s # ss) (read_strs vs)"
| "read_strs (v # vs) = None"

definition opt_strs :: "json option \<Rightarrow> string list option option" where
  "opt_strs v = (case v of None \<Rightarrow> Some None
                 | Some (JArr vs) \<Rightarrow> map_option Some (read_strs vs)
                 | _ \<Rightarrow> None)"

definition read_MessageSender :: "json option \<Rightarrow> MessageSender option" where
  "read_MessageSender v =
     (if v = Some (JStr ''user'') then Some USER
      else if v = Some (JStr ''ai'') then Some AI
      else if v = Some (JStr ''system'') then Some SYSTEM
      else None)"

definition read_MessageMetadata :: "json \<Rightarrow> MessageMetadata option" where
  "read_MessageMetadata v = (case v of
     JObj kvs \<Rightarrow> do {
       a \<leftarrow> opt_num (map_of kvs ''tokens'');
       b \<leftarrow> opt_num (map_of kvs ''processingTime'');
       c \<leftarrow> opt_str (map_of kvs ''model'');
       d \<leftarrow> opt_num (map_of kvs ''promptTokens'');
       e \<leftarrow> opt_num (map_of kvs ''completionTokens'');
       f \<leftarrow> opt_num (map_of kvs ''totalTokens'');
       g \<leftarrow> opt_str (map_of kvs ''finishReason'');
       Some \<lparr>tokens = a, processingTime = b, model = c, promptTokens = d,
             completionTokens = e, totalTokens = f, finishReason = g\<rparr> }
   | _ \<Rightarrow> None)"

definition opt_MessageMetadata :: "json option \<Rightarrow> MessageMetadata option option" where
  "opt_MessageMetadata v = (case v of None \<Rightarrow> Some None
                            | Some j \<Rightarrow> map_option Some (read_MessageMetadata j))"

definition read_ChatMessage :: "json \<Rightarrow> ChatMessage option" where
  "read_ChatMessage v = (case v of
     JObj kvs \<Rightarrow> do {
       a \<leftarrow> req_str (map_of kvs ''id'');
       b \<leftarrow> read_MessageSender (map_of kvs ''sender'');
       c \<leftarrow> req_str (map_of kvs ''content'');
       d \<leftarrow> req_num (map_of kvs ''timestamp'');
       e \<leftarrow> opt_bool (map_of kvs ''isError'');
       f \<leftarrow> opt_bool (map_of kvs ''isPending'');
       g \<leftarrow> opt_MessageMetadata (map_of kvs ''metadata'');
       Some \<lparr>id_msg = a, sender = b, content = c, timestamp = d,
             isError = e, isPending = f, metadata_msg = g\<rparr> }
   | _ \<Rightarrow> None)"

fun read_ChatMessages :: "json list \<Rightarrow> ChatMessage list option" where
  "read_ChatMessages [] = Some []"
| "read_ChatMessages (v # vs) = do {
     m \<leftarrow> read_ChatMessage v;
     ms \<leftarrow> read_ChatMessages vs;
     Some (m # ms) }"

definition read_ConversationMetadata :: "json \<Rightarrow> ConversationMetadata option" where
  "read_ConversationMetadata v = (case v of
     JObj kvs \<Rightarrow> do {
       a \<leftarrow> req_str (map_of kvs ''id'');
       b \<leftarrow> opt_str (map_of kvs ''title'');
       c \<leftarrow> req_num (map_of kvs ''createdAt'');
       d \<leftarrow> req_num (map_of kvs ''updatedAt'');
       e \<leftarrow> req_num (map_of kvs ''totalMessages'');
       f \<leftarrow> req_num (map_of kvs ''userMessageCount'');
       g \<leftarrow> req_num (map_of kvs ''aiMessageCount'');
       h \<leftarrow> opt_num (map_of kvs ''totalTokensUsed'');
       i \<leftarrow> opt_strs (map_of kvs ''tags'');
       j \<leftarrow> opt_bool (map_of kvs ''isFavorite'');
       k \<leftarrow> opt_bool (map_of kvs ''isArchived'');
       Some \<lparr>id_conv = a, title = b, createdAt = c, updatedAt = d, totalMessages = e,
             userMessageCount = f, aiMessageCount = g, totalTokensUsed = h, tags = i,
             isFavorite = j, isArchived = k\<rparr> }
   | _ \<Rightarrow> None)"

definition read_ChatHistory :: "json \<Rightarrow> ChatHistory option" where
  "read_ChatHistory v = (case v of
     JObj kvs \<Rightarrow> (case (map_of kvs ''messages'', map_of kvs ''metadata'') of
        (Some (JArr vs), Some m) \<Rightarrow> do {
          ms \<leftarrow> read_ChatMessages vs;
          md \<leftarrow> read_ConversationMetadata m;
          Some \<lparr>messages = ms, metadata = md\<rparr> }
      | _ \<Rightarrow> None)
   | _ \<Rightarrow> None)"

definition as_ChatHistory :: "json \<Rightarrow> ChatHistory option" where
  "as_ChatHistory v = (case read_ChatHistory v of
     None \<Rightarrow> None
   | Some c \<Rightarrow> if json_of_ChatHistory c = v then Some c else None)"


section \<open>The conversation store (services/chat-storage.service.ts)\<close>

subsection \<open>The browser: stored texts, the clock, fresh identifiers\<close>

text \<open>
  \<^verbatim>\<open>localStorage\<close> maps keys to strings. A stored string is represented by what
  \<^verbatim>\<open>JSON.parse\<close> makes of it: the value it denotes, or a text that is not JSON, kept as
  it is. \<^verbatim>\<open>JSON.stringify\<close> of a value is the text that denotes it.
\<close>

datatype item = NotJson string | Json json

fun JSON_parse :: "item \<Rightarrow> js_error + json" where
  "JSON_parse (NotJson t) = Inl SyntaxError"
| "JSON_parse (Json v) = Inr v"

definition JSON_stringify :: "json \<Rightarrow> item" where
  "JSON_stringify v = Json v"

text \<open>\<^verbatim>\<open>!text\<close> on a string: only the empty string is falsy.\<close>

fun empty_text :: "item \<Rightarrow> bool" where
  "empty_text (NotJson t) = (t = [])"
| "empty_text (Json v) = False"

text \<open>
  What the program takes from outside: the two configuration constants it reads from
  \<^verbatim>\<open>environment\<close>, the successive results of \<^verbatim>\<open>Date.now()\<close> and \<^verbatim>\<open>uuidv4()\<close>, and
  whether \<^verbatim>\<open>localStorage.setItem\<close> accepts a write (it throws when the quota is
  exceeded).
\<close>

record env =
  CHAT_HISTORY_KEY :: string
  MAX_HISTORY_ITEMS :: nat
  Date_now :: "nat \<Rightarrow> int"
  uuidv4 :: "nat \<Rightarrow> string"
  setItem_ok :: "(string \<rightharpoonup> item) \<Rightarrow> string \<Rightarrow> item \<Rightarrow> bool"

text \<open>
  The fields of the service. A subject is the value it currently holds; \<open>saveSubject\<close> is
  the list of conversations handed to the debounced save, oldest first. \<open>clock\<close> and
  \<open>uuids\<close> count the calls of \<^verbatim>\<open>Date.now()\<close> and \<^verbatim>\<open>uuidv4()\<close> made so far. The error
  channel carries the message and the error caught; the program joins them into one string.
  The index holds each metadata as it was when it was written there: in the program an
  entry is the metadata object of the conversation last saved, so that the counters of
  that conversation show through until the next save. No property below reads them there.
  An entry of the index is a metadata or \<^verbatim>\<open>null\<close> (\<open>None\<close>): the index is read from the
  storage by \<^verbatim>\<open>loadAllConversationsMetadata\<close>, which checks only that it is an array, so
  that \<^verbatim>\<open>[null]\<close> is an index the service can hold.
\<close>

record store =
  localStorage :: "string \<rightharpoonup> item"
  activeConversationId :: "string option"
  conversationsSubject :: "ConversationMetadata option list"
  currentConversationSubject :: "ChatHistory option"
  storageErrorSubject :: "(string \<times> js_error) option"
  saveSubject :: "ChatHistory list"
  clock :: nat
  uuids :: nat

definition now :: "env \<Rightarrow> store \<Rightarrow> int \<times> store" where
  "now e s = (Date_now e (clock s), s\<lparr>clock := Suc (clock s)\<rparr>)"

definition fresh_uuid :: "env \<Rightarrow> store \<Rightarrow> string \<times> store" where
  "fresh_uuid e s = (uuidv4 e (uuids s), s\<lparr>uuids := Suc (uuids s)\<rparr>)"

definition localStorage_setItem :: "env \<Rightarrow> string \<Rightarrow> item \<Rightarrow> store \<Rightarrow> js_error + store" where
  "localStorage_setItem e k v s =
     (if setItem_ok e (localStorage s) k v
      then Inr (s\<lparr>localStorage := (localStorage s)(k \<mapsto> v)\<rparr>)
      else Inl QuotaExceededError)"

text \<open>The keys \<^verbatim>\<open>`${CHAT_HISTORY_KEY}_${id}`\<close> and \<^verbatim>\<open>`${CHAT_HISTORY_KEY}_index`\<close>.\<close>

definition conversation_key :: "env \<Rightarrow> string \<Rightarrow> string" where
  "conversation_key e conversationId = CHAT_HISTORY_KEY e @ ''_'' @ conversationId"

definition index_key :: "env \<Rightarrow> string" where
  "index_key e = CHAT_HISTORY_KEY e @ ''_index''"

text \<open>A whole number in a template literal.\<close>

function show_nat :: "nat \<Rightarrow> string" where
  "show_nat n = (if n < 10 then [''0123456789'' ! n]
                 else show_nat (n div 10) @ [''0123456789'' ! (n mod 10)])"
  by pat_completeness auto
termination
  by (relation "measure (\<lambda>n. n)") auto

definition show_int :: "int \<Rightarrow> string" where
  "show_int i = (if i < 0 then CHR ''-'' # show_nat (nat (- i)) else show_nat (nat i))"

text \<open>
  \<^verbatim>\<open>conversations.findIndex((c) => c.id === conversationId)\<close>; \<open>None\<close> is its \<open>-1\<close>.
  The scan reads \<^verbatim>\<open>c.id\<close> of each entry in turn until one matches, and reading it of a
  \<^verbatim>\<open>null\<close> entry throws a TypeError.
\<close>

fun findIndex_id :: "string \<Rightarrow> ConversationMetadata option list \<Rightarrow> js_error + nat option" where
  "findIndex_id conversationId [] = Inr None"
| "findIndex_id conversationId (None # cs) = Inl TypeError"
| "findIndex_id conversationId (Some c # cs) =
     (if id_conv c = conversationId then Inr (Some 0)
      else (case findIndex_id conversationId cs of
              Inl error \<Rightarrow> Inl error
            | Inr r \<Rightarrow> Inr (map_option Suc r)))"

text \<open>\<^verbatim>\<open>conversations.some((c) => c.id === conversationId)\<close>: the same scan.\<close>

definition some_id :: "string \<Rightarrow> ConversationMetadata option list \<Rightarrow> js_error + bool" where
  "some_id conversationId cs =
     (case findIndex_id conversationId cs of
        Inl error \<Rightarrow> Inl error
      | Inr r \<Rightarrow> Inr (r \<noteq> None))"

text \<open>An entry of the index as \<^verbatim>\<open>JSON.stringify\<close> writes it.\<close>

definition json_of_index_entry :: "ConversationMetadata option \<Rightarrow> json" where
  "json_of_index_entry entry =
     (case entry of None \<Rightarrow> JNull | Some md \<Rightarrow> json_of_ConversationMetadata md)"

subsection \<open>Private helpers\<close>

definition handleStorageError :: "string \<Rightarrow> js_error \<Rightarrow> store \<Rightarrow> store" where
  "handleStorageError message error s = s\<lparr>storageErrorSubject := Some (message, error)\<rparr>"

definition saveConversationsIndex ::
    "env \<Rightarrow> ConversationMetadata option list \<Rightarrow> store \<Rightarrow> store" where
  "saveConversationsIndex e conversations s =
     (case localStorage_setItem e (index_key e)
             (JSON_stringify (JArr (map json_of_index_entry conversations))) s of
        Inl error \<Rightarrow> handleStorageError ''Failed to save conversations index'' error s
      | Inr s' \<Rightarrow> s')"

text \<open>
  The two helpers that scan the index have no \<^verbatim>\<open>try\<close> of their own: the TypeError of
  the scan reaches the caller, before the helper has changed anything.
\<close>

definition updateConversationInIndex ::
    "env \<Rightarrow> ConversationMetadata \<Rightarrow> store \<Rightarrow> js_error + store" where
  "updateConversationInIndex e md s =
     (let conversations = conversationsSubject s in
      case findIndex_id (id_conv md) conversations of
        Inl error \<Rightarrow> Inl error
      | Inr found \<Rightarrow>
          (let conversations' =
                 (case found of
                    Some index \<Rightarrow> conversations[index := Some md]
                  | None \<Rightarrow> conversations @ [Some md])
           in Inr (saveConversationsIndex e conversations'
                     (s\<lparr>conversationsSubject := conversations'\<rparr>))))"

definition updateConversationTimestamp :: "env \<Rightarrow> string \<Rightarrow> store \<Rightarrow> js_error + store" where
  "updateConversationTimestamp e conversationId s =
     (let conversations = conversationsSubject s in
      case findIndex_id conversationId conversations of
        Inl error \<Rightarrow> Inl error
      | Inr None \<Rightarrow> Inr s
      | Inr (Some index) \<Rightarrow>
          (let (t, s1) = now e s;
               conversations' =
                 conversations[index := map_option (\<lambda>c. c\<lparr>updatedAt := t\<rparr>) (conversations ! index)]
           in Inr (saveConversationsIndex e conversations'
                     (s1\<lparr>conversationsSubject := conversations'\<rparr>))))"

text \<open>
  \<^verbatim>\<open>validateConversation\<close> reads the parsed value, whatever it is. A message that is
  \<^verbatim>\<open>null\<close> makes \<^verbatim>\<open>message.id\<close> throw a TypeError; every other failure throws the
  program's own error.
\<close>

definition validateMessage :: "json \<Rightarrow> js_error + unit" where
  "validateMessage message =
     (case get_prop (Some message) ''id'' of
        Inl error \<Rightarrow> Inl error
      | Inr i \<Rightarrow>
          if \<not> truthy i \<or> \<not> truthy (field (Some message) ''sender'')
             \<or> \<not> truthy (field (Some message) ''content'')
             \<or> \<not> truthy (field (Some message) ''timestamp'')
          then Inl (Error ''Invalid message format: missing required properties'')
          else Inr ())"

fun validateMessages :: "json list \<Rightarrow> js_error + unit" where
  "validateMessages [] = Inr ()"
| "validateMessages (message # rest) =
     (case validateMessage message of
        Inl error \<Rightarrow> Inl error
      | Inr u \<Rightarrow> validateMessages rest)"

definition validateConversation :: "json \<Rightarrow> js_error + unit" where
  "validateConversation conversation =
     (let md = field (Some conversation) ''metadata'';
          msgs = field (Some conversation) ''messages''
      in if \<not> truthy (Some conversation) \<or> \<not> truthy md \<or> \<not> truthy msgs
         then Inl (Error ''Invalid conversation format: missing required properties'')
         else if \<not> truthy (field md ''id'') \<or> \<not> typeof_number (field md ''createdAt'')
                 \<or> \<not> typeof_number (field md ''updatedAt'')
         then Inl (Error ''Invalid conversation metadata'')
         else (case msgs of
                 Some (JArr ms) \<Rightarrow> validateMessages ms
               | _ \<Rightarrow> Inl (Error ''Invalid messages format: not an array'')))"

subsection \<open>Public operations\<close>

text \<open>
  \<^verbatim>\<open>saveConversation\<close> writes \<open>updatedAt\<close> into the object it is given, so the model
  returns the conversation as the caller sees it afterwards. The index write inside
  \<^verbatim>\<open>updateConversationInIndex\<close> reports its own failure, and the \<^verbatim>\<open>next(null)\<close> that
  follows clears the report. Its \<^verbatim>\<open>catch\<close> takes a refused write of the conversation,
  and the TypeError of the index scan, which comes after the conversation is written.
\<close>

definition saveConversation :: "env \<Rightarrow> ChatHistory \<Rightarrow> store \<Rightarrow> ChatHistory \<times> store" where
  "saveConversation e conversation s =
     (let (t, s1) = now e s;
          conversation' = conversation\<lparr>metadata := (metadata conversation)\<lparr>updatedAt := t\<rparr>\<rparr>
      in case localStorage_setItem e (conversation_key e (id_conv (metadata conversation')))
                (JSON_stringify (json_of_ChatHistory conversation')) s1 of
           Inl error \<Rightarrow> (conversation', handleStorageError ''Failed to save conversation'' error s1)
         | Inr s2 \<Rightarrow>
             (case updateConversationInIndex e (metadata conversation') s2 of
                Inl error \<Rightarrow>
                  (conversation', handleStorageError ''Failed to save conversation'' error s2)
              | Inr s3 \<Rightarrow> (conversation', s3\<lparr>storageErrorSubject := None\<rparr>)))"

text \<open>
  In \<^verbatim>\<open>createNewConversation\<close> every call inside the \<^verbatim>\<open>try\<close> catches its own errors, so
  the \<^verbatim>\<open>catch\<close> branch (returning the empty string) is never taken. The metadata object
  is pushed to the index twice: by \<^verbatim>\<open>saveConversation\<close> and by the function itself.
\<close>

definition createNewConversation :: "env \<Rightarrow> string option \<Rightarrow> store \<Rightarrow> string \<times> store" where
  "createNewConversation e title_arg s =
     (let (conversationId, s1) = fresh_uuid e s;
          (t, s2) = now e s1;
          md = \<lparr>id_conv = conversationId,
                title = Some (case title_arg of
                                Some ti \<Rightarrow> if ti \<noteq> [] then ti else ''Conversation '' @ show_int t
                              | None \<Rightarrow> ''Conversation '' @ show_int t),
                createdAt = t, updatedAt = t, totalMessages = 0, userMessageCount = 0,
                aiMessageCount = 0, totalTokensUsed = Some 0, tags = Some [],
                isFavorite = Some False, isArchived = Some False\<rparr>;
          newConversation = \<lparr>messages = [], metadata = md\<rparr>;
          (newConversation', s3) = saveConversation e newConversation s2;
          conversations = conversationsSubject s3 @ [Some (metadata newConversation')];
          s4 = saveConversationsIndex e conversations (s3\<lparr>conversationsSubject := conversations\<rparr>)
      in (conversationId,
          s4\<lparr>activeConversationId := Some conversationId,
             currentConversationSubject := Some newConversation'\<rparr>))"

text \<open>
  \<^verbatim>\<open>loadConversation\<close> assigns the active identifier and publishes the conversation
  before it calls \<^verbatim>\<open>updateConversationTimestamp\<close>. When the scan of the index throws
  there, the \<^verbatim>\<open>catch\<close> reports the error and returns false with the loaded conversation
  already active.
\<close>

definition loadConversation :: "env \<Rightarrow> string \<Rightarrow> store \<Rightarrow> (bool \<times> store) option" where
  "loadConversation e conversationId s =
     (let failed = (\<lambda>error. Some (False,
            handleStorageError (''Failed to load conversation '' @ conversationId) error s));
          not_found = Error (''Conversation '' @ conversationId @ '' not found'')
      in case localStorage s (conversation_key e conversationId) of
           None \<Rightarrow> failed not_found
         | Some conversationJson \<Rightarrow>
             if empty_text conversationJson then failed not_found
             else (case JSON_parse conversationJson of
                     Inl error \<Rightarrow> failed error
                   | Inr parsed \<Rightarrow>
                       (case validateConversation parsed of
                          Inl error \<Rightarrow> failed error
                        | Inr u \<Rightarrow>
                            (case as_ChatHistory parsed of
                               None \<Rightarrow> None
                             | Some conversation \<Rightarrow>
                                 (let s1 = s\<lparr>activeConversationId := Some conversationId,
                                             currentConversationSubject := Some conversation\<rparr>
                                  in case updateConversationTimestamp e conversationId s1 of
                                       Inl error \<Rightarrow>
                                         Some (False,
                                           handleStorageError
                                             (''Failed to load conversation '' @ conversationId)
                                             error s1)
                                     | Inr s2 \<Rightarrow> Some (True, s2))))))"


text \<open>
  The body of \<^verbatim>\<open>addMessage\<close> once there is a current conversation: push the message,
  count it, add the tokens of an AI message, and keep the last \<open>MAX_HISTORY_ITEMS\<close>
  messages when there are more.
\<close>

definition pushMessage :: "env \<Rightarrow> ChatMessage \<Rightarrow> ChatHistory \<Rightarrow> ChatHistory" where
  "pushMessage e message currentConversation =
     (let msgs = messages currentConversation @ [message];
          md1 = (metadata currentConversation)
                  \<lparr>totalMessages := totalMessages (metadata currentConversation) + 1\<rparr>;
          md2 =
            (if sender message = USER
             then md1\<lparr>userMessageCount := userMessageCount md1 + 1\<rparr>
             else if sender message = AI
             then (let md = md1\<lparr>aiMessageCount := aiMessageCount md1 + 1\<rparr> in
                   case metadata_msg message of
                     None \<Rightarrow> md
                   | Some mm \<Rightarrow>
                       (case totalTokens mm of
                          None \<Rightarrow> md
                        | Some n \<Rightarrow>
                            if n \<noteq> 0
                            then md\<lparr>totalTokensUsed :=
                                      Some ((case totalTokensUsed md of None \<Rightarrow> 0 | Some u \<Rightarrow> u) + n)\<rparr>
                            else md))
             else md1);
          msgs' = (if length msgs > MAX_HISTORY_ITEMS e
                   then drop (length msgs - MAX_HISTORY_ITEMS e) msgs
                   else msgs)
      in \<lparr>messages = msgs', metadata = md2\<rparr>)"

function addMessage :: "env \<Rightarrow> ChatMessage \<Rightarrow> store \<Rightarrow> store option" where
  "addMessage e message s =
     (case currentConversationSubject s of
        None \<Rightarrow>
          (case createNewConversation e None s of
             (conversationId, s1) \<Rightarrow>
               (case loadConversation e conversationId s1 of
                  None \<Rightarrow> None
                | Some (ok, s2) \<Rightarrow> addMessage e message s2))
      | Some currentConversation \<Rightarrow>
          (let currentConversation' = pushMessage e message currentConversation
           in Some (s\<lparr>currentConversationSubject := Some currentConversation',
                      saveSubject := saveSubject s @ [currentConversation']\<rparr>)))"
  by pat_completeness auto
termination
proof (relation "measure (\<lambda>(e, message, s). if currentConversationSubject s = None then 1 else 0)")
  show "wf (measure (\<lambda>(e, message, s). if currentConversationSubject s = None then 1 else (0::nat)))"
    by simp
next
  fix e :: env and message :: ChatMessage and s s1 s2 :: store and conversationId ok x
  assume none: "currentConversationSubject s = None"
    and created: "(conversationId, s1) = createNewConversation e None s"
    and loaded: "loadConversation e conversationId s1 = Some x"
    and x: "(ok, s2) = x"
  have "currentConversationSubject s1 \<noteq> None"
    using created
    by (simp add: createNewConversation_def Let_def split: prod.splits)
  moreover have "currentConversationSubject s2 \<noteq> None"
    if "currentConversationSubject s1 \<noteq> None"
    using loaded x that
    by (auto simp: loadConversation_def Let_def handleStorageError_def
        updateConversationTimestamp_def saveConversationsIndex_def localStorage_setItem_def
        now_def split: option.splits if_splits sum.splits prod.splits)
  ultimately show "((e, message, s2), (e, message, s))
      \<in> measure (\<lambda>(e, message, s). if currentConversationSubject s = None then 1 else 0)"
    using none by simp
qed


text \<open>
  \<^verbatim>\<open>clearCurrentConversation\<close> publishes the cleared conversation and then saves that same
  object, so the published conversation carries the \<open>updatedAt\<close> that \<^verbatim>\<open>saveConversation\<close>
  wrote. Nothing inside its \<^verbatim>\<open>try\<close> throws.
\<close>

definition clearCurrentConversation :: "env \<Rightarrow> store \<Rightarrow> bool \<times> store" where
  "clearCurrentConversation e s =
     (case currentConversationSubject s of
        None \<Rightarrow> (False, s)
      | Some currentConversation \<Rightarrow>
          (let (t, s1) = now e s;
               clearedConversation =
                 \<lparr>messages = [],
                  metadata = (metadata currentConversation)
                    \<lparr>totalMessages := 0, userMessageCount := 0, aiMessageCount := 0,
                     totalTokensUsed := Some 0, updatedAt := t\<rparr>\<rparr>;
               s2 = s1\<lparr>currentConversationSubject := Some clearedConversation\<rparr>;
               (clearedConversation', s3) = saveConversation e clearedConversation s2
           in (True, s3\<lparr>currentConversationSubject := Some clearedConversation'\<rparr>)))"

text \<open>\<^verbatim>\<open>exportConversation\<close> returns the stored text, or the empty string on failure.\<close>

definition exportConversation :: "env \<Rightarrow> string option \<Rightarrow> store \<Rightarrow> item \<times> store" where
  "exportConversation e conversationId s =
     (let failed = (\<lambda>error. (NotJson [],
            handleStorageError ''Failed to export conversation'' error s));
          ident = (case conversationId of
                     Some i \<Rightarrow> if i \<noteq> [] then Some i else activeConversationId s
                   | None \<Rightarrow> activeConversationId s)
      in case ident of
           None \<Rightarrow> failed (Error ''No conversation ID provided and no active conversation'')
         | Some i \<Rightarrow>
             if i = []
             then failed (Error ''No conversation ID provided and no active conversation'')
             else (case localStorage s (conversation_key e i) of
                     None \<Rightarrow> failed (Error (''Conversation '' @ i @ '' not found''))
                   | Some conversationJson \<Rightarrow>
                       if empty_text conversationJson
                       then failed (Error (''Conversation '' @ i @ '' not found''))
                       else (conversationJson, s)))"

text \<open>
  \<^verbatim>\<open>importConversation\<close> returns the identifier, or \<^verbatim>\<open>null\<close> (\<open>None\<close>) on failure; the
  scan of the index for the identifier can throw, before anything is saved.
\<close>

definition importConversation ::
    "env \<Rightarrow> item \<Rightarrow> bool \<Rightarrow> store \<Rightarrow> (string option \<times> store) option" where
  "importConversation e json_text replace s =
     (let failed = (\<lambda>error. Some (None,
            handleStorageError ''Failed to import conversation'' error s))
      in case JSON_parse json_text of
           Inl error \<Rightarrow> failed error
         | Inr parsed \<Rightarrow>
             (case validateConversation parsed of
                Inl error \<Rightarrow> failed error
              | Inr u \<Rightarrow>
                  (case as_ChatHistory parsed of
                     None \<Rightarrow> None
                   | Some conversation \<Rightarrow>
                       (case some_id (id_conv (metadata conversation)) (conversationsSubject s) of
                          Inl error \<Rightarrow> failed error
                        | Inr exists \<Rightarrow>
                       (let (conversation1, s1) =
                              (if exists \<and> \<not> replace
                               then (let (newId, s') = fresh_uuid e s in
                                     (conversation\<lparr>metadata := (metadata conversation)
                                        \<lparr>id_conv := newId,
                                         title := Some ((case title (metadata conversation) of
                                                           Some ti \<Rightarrow> if ti \<noteq> [] then ti
                                                                      else ''Imported Conversation''
                                                         | None \<Rightarrow> ''Imported Conversation'')
                                                        @ '' (Imported)'')\<rparr>\<rparr>, s'))
                               else (conversation, s));
                            (conversation2, s2) = saveConversation e conversation1 s1
                        in Some (Some (id_conv (metadata conversation2)),
                                 s2\<lparr>activeConversationId := Some (id_conv (metadata conversation2)),
                                    currentConversationSubject := Some conversation2\<rparr>))))))"

text \<open>
  \<^verbatim>\<open>toggleFavorite\<close> does not validate what it parsed. Reading \<^verbatim>\<open>conversation.metadata\<close>
  throws when the parsed value is \<^verbatim>\<open>null\<close>; reading \<^verbatim>\<open>.isFavorite\<close> throws when the
  metadata is \<^verbatim>\<open>null\<close> or missing; assigning it throws (class bodies are strict code) when
  the metadata is a number, a string or a boolean.
\<close>

definition toggle_target :: "json \<Rightarrow> js_error + unit" where
  "toggle_target parsed =
     (case get_prop (Some parsed) ''metadata'' of
        Inl error \<Rightarrow> Inl error
      | Inr md \<Rightarrow>
          (case get_prop md ''isFavorite'' of
             Inl error \<Rightarrow> Inl error
           | Inr fav \<Rightarrow>
               (case md of
                  Some (JObj kvs) \<Rightarrow> Inr ()
                | Some (JArr vs) \<Rightarrow> Inr ()
                | _ \<Rightarrow> Inl TypeError)))"

definition toggleFavorite :: "env \<Rightarrow> string \<Rightarrow> store \<Rightarrow> (bool \<times> store) option" where
  "toggleFavorite e conversationId s =
     (let failed = (\<lambda>error. Some (False,
            handleStorageError (''Failed to toggle favorite for '' @ conversationId) error s));
          not_found = Error (''Conversation '' @ conversationId @ '' not found'')
      in case localStorage s (conversation_key e conversationId) of
           None \<Rightarrow> failed not_found
         | Some conversationJson \<Rightarrow>
             if empty_text conversationJson then failed not_found
             else (case JSON_parse conversationJson of
                     Inl error \<Rightarrow> failed error
                   | Inr parsed \<Rightarrow>
                       (case toggle_target parsed of
                          Inl error \<Rightarrow> failed error
                        | Inr u \<Rightarrow>
                            (case as_ChatHistory parsed of
                               None \<Rightarrow> None
                             | Some conversation \<Rightarrow>
                                 (let conversation1 = conversation\<lparr>metadata := (metadata conversation)
                                        \<lparr>isFavorite := Some (isFavorite (metadata conversation) \<noteq> Some True)\<rparr>\<rparr>;
                                      (conversation2, s1) = saveConversation e conversation1 s;
                                      s2 = (if activeConversationId s1 = Some conversationId
                                            then s1\<lparr>currentConversationSubject := Some conversation2\<rparr>
                                            else s1)
                                  in Some (isFavorite (metadata conversation2) = Some True, s2))))))"


section \<open>The completion client and the stream assembler (AiService)\<close>

subsection \<open>The request\<close>

record OpenAIChatMessage =
  role :: string
  content_api :: string

text \<open>The request body; \<open>'p\<close> stands for the default parameters spread into it.\<close>

record 'p OpenAIChatRequest =
  model_req :: string
  messages_req :: "OpenAIChatMessage list"
  stream_req :: bool
  params_req :: 'p

definition formatConversationForApi :: "ChatMessage list \<Rightarrow> string \<Rightarrow> OpenAIChatMessage list" where
  "formatConversationForApi history newUserMessage =
     (let formattedMessages0 =
            [\<lparr>role = ''system'',
              content_api = ''You are a helpful AI assistant. Provide concise, accurate, and helpful responses.''\<rparr>];
          formattedMessages1 =
            foldl (\<lambda>formattedMessages message.
                     if sender message = SYSTEM \<or> isError message = Some True
                     then formattedMessages
                     else formattedMessages @
                            [\<lparr>role = (if sender message = USER then ''user'' else ''assistant''),
                              content_api = content message\<rparr>])
                  formattedMessages0 history
      in formattedMessages1 @ [\<lparr>role = ''user'', content_api = newUserMessage\<rparr>])"

text \<open>The payload that \<^verbatim>\<open>sendMessage\<close> hands to either request path.\<close>

definition requestPayload ::
    "string \<Rightarrow> 'p \<Rightarrow> string \<Rightarrow> ChatMessage list \<Rightarrow> bool \<Rightarrow> 'p OpenAIChatRequest" where
  "requestPayload model_id defaultParams userMessage conversationHistory streamResponse =
     \<lparr>model_req = model_id,
      messages_req = formatConversationForApi conversationHistory userMessage,
      stream_req = streamResponse,
      params_req = defaultParams\<rparr>"

subsection \<open>Strings of a chunk\<close>

text \<open>\<^verbatim>\<open>chunk.split("\n")\<close>: the pieces between line feeds, at least one.\<close>

fun split_lines :: "string \<Rightarrow> string list" where
  "split_lines [] = [[]]"
| "split_lines (c # cs) =
     (if c = CHR 0x0A then [] # split_lines cs
      else (case split_lines cs of
              l # ls \<Rightarrow> (c # l) # ls
            | [] \<Rightarrow> [[c]]))"

text \<open>\<^verbatim>\<open>trim()\<close> over the white space of ASCII.\<close>

definition white_space :: "char \<Rightarrow> bool" where
  "white_space c = (c \<in> set [CHR 0x09, CHR 0x0A, CHR 0x0B, CHR 0x0C, CHR 0x0D, CHR 0x20])"

definition trim :: "string \<Rightarrow> string" where
  "trim t = rev (dropWhile white_space (rev (dropWhile white_space t)))"

text \<open>\<^verbatim>\<open>line.replace(/^data: /, "")\<close>.\<close>

definition strip_data_prefix :: "string \<Rightarrow> string" where
  "strip_data_prefix line = (if take 6 line = ''data: '' then drop 6 line else line)"

definition chunk_lines :: "string \<Rightarrow> string list" where
  "chunk_lines chunk =
     filter (\<lambda>line. trim line \<noteq> [] \<and> trim line \<noteq> ''data: [DONE]'') (split_lines chunk)"

text \<open>\<^verbatim>\<open>text.includes(part)\<close>.\<close>

fun str_includes :: "string \<Rightarrow> string \<Rightarrow> bool" where
  "str_includes [] part = (part = [])"
| "str_includes (c # cs) part = (take (length part) (c # cs) = part \<or> str_includes cs part)"

subsection \<open>Values of any type met in an event\<close>

text \<open>\<^verbatim>\<open>v[0]\<close> on a value that is not \<^verbatim>\<open>null\<close> or \<^verbatim>\<open>undefined\<close>.\<close>

fun index0 :: "json option \<Rightarrow> json option" where
  "index0 (Some (JArr (x # xs))) = Some x"
| "index0 (Some (JStr (c # cs))) = Some (JStr [c])"
| "index0 (Some (JObj kvs)) = map_of kvs ''0''"
| "index0 v = None"

text \<open>What \<^verbatim>\<open>text += v\<close> appends: the string conversion of \<open>v\<close>.\<close>

fun join_commas :: "string list \<Rightarrow> string" where
  "join_commas [] = []"
| "join_commas [t] = t"
| "join_commas (t # ts) = t @ '','' @ join_commas ts"

fun js_to_string :: "json \<Rightarrow> string" where
  "js_to_string JNull = ''null''"
| "js_to_string (JBool b) = (if b then ''true'' else ''false'')"
| "js_to_string (JNum n) = show_int n"
| "js_to_string (JStr t) = t"
| "js_to_string (JArr vs) =
     join_commas (map (\<lambda>v. if v = JNull then [] else js_to_string v) vs)"
| "js_to_string (JObj kvs) = ''[object Object]''"

fun js_string_of :: "json option \<Rightarrow> string" where
  "js_string_of None = ''undefined''"
| "js_string_of (Some v) = js_to_string v"

text \<open>
  \<^verbatim>\<open>count + v\<close> for a count that is a whole number or no number at all (\<open>None\<close>: NaN or a
  string, which absorb every further addition).
\<close>

fun js_add :: "int option \<Rightarrow> json option \<Rightarrow> int option" where
  "js_add (Some a) (Some (JNum n)) = Some (a + n)"
| "js_add (Some a) (Some JNull) = Some a"
| "js_add (Some a) (Some (JBool b)) = Some (if b then a + 1 else a)"
| "js_add a v = None"

text \<open>
  The metadata of a message is declared with numbers and strings; a value of another
  type stored there by the assembler lies outside the declared type and is read as absent.
\<close>

fun num_of :: "json option \<Rightarrow> int option" where
  "num_of (Some (JNum n)) = Some n"
| "num_of v = None"

fun str_of :: "json option \<Rightarrow> string option" where
  "str_of (Some (JStr t)) = Some t"
| "str_of v = None"


subsection \<open>The service's signals\<close>

text \<open>What a promise was rejected with, as \<^verbatim>\<open>getErrorMessage\<close> tells it apart.\<close>

datatype thrown =
    HttpErrorResponse nat string
  | Error_instance string
  | Other_value

record LoadingState =
  isLoading :: bool
  loadingMessage :: "string option"
  progress :: "int option"
  cancelable :: "bool option"

record ErrorState =
  hasError :: bool
  errorCode :: "string option"
  errorMessage :: "string option"
  errorDetails :: "thrown option"
  retryable :: "bool option"

record AiService =
  loadingState :: LoadingState
  errorState :: ErrorState
  tokenUsage :: "int option"
  defaultModel :: string

definition setLoading :: "bool \<Rightarrow> string option \<Rightarrow> int option \<Rightarrow> AiService \<Rightarrow> AiService" where
  "setLoading loading message prog a =
     a\<lparr>loadingState := \<lparr>isLoading = loading, loadingMessage = message, progress = prog,
                         cancelable = Some False\<rparr>\<rparr>"

definition setError ::
    "bool \<Rightarrow> string option \<Rightarrow> thrown option \<Rightarrow> string option \<Rightarrow> AiService \<Rightarrow> AiService" where
  "setError err message details code a =
     a\<lparr>errorState := \<lparr>hasError = err, errorCode = code, errorMessage = message,
                       errorDetails = details, retryable = Some True\<rparr>\<rparr>"

definition clearError :: "AiService \<Rightarrow> AiService" where
  "clearError a =
     a\<lparr>errorState := \<lparr>hasError = False, errorCode = None, errorMessage = None,
                       errorDetails = None, retryable = None\<rparr>\<rparr>"

definition updateTokenUsage :: "json option \<Rightarrow> AiService \<Rightarrow> AiService" where
  "updateTokenUsage tks a = a\<lparr>tokenUsage := js_add (tokenUsage a) tks\<rparr>"

definition getErrorMessage :: "thrown \<Rightarrow> string" where
  "getErrorMessage error =
     (case error of
        HttpErrorResponse status message \<Rightarrow>
          if status = 0 then ''Network error. Please check your internet connection.''
          else if status = 401 then ''Authentication error. Please check your API key.''
          else if status = 429 then ''Rate limit exceeded. Please try again later.''
          else if status = 500 then ''Server error. Please try again later.''
          else ''HTTP error '' @ show_nat status @ '': '' @ message
      | Error_instance message \<Rightarrow>
          if str_includes message ''timeout'' then ''Request timed out. Please try again.''
          else message
      | Other_value \<Rightarrow> ''An unknown error occurred.'')"

subsection \<open>The stream assembler\<close>

text \<open>
  The state of one streaming request: the message being accumulated, the messages sent to
  \<open>responseSubject\<close> so far (oldest first), whether the subject has completed, and the
  service's signals.
\<close>

record assembler =
  accumulatedMessage :: ChatMessage
  responseSubject :: "ChatMessage list"
  completed :: bool
  service :: AiService

text \<open>
  What the request takes from outside: \<^verbatim>\<open>JSON.parse\<close> on the text of a line (\<open>None\<close> when
  it throws), the time at which the stream ends, and the identifier drawn for an error
  message.
\<close>

record stream_env =
  JSON_parse_line :: "string \<Rightarrow> json option"
  end_time :: int
  error_uuid :: string

definition no_metadata :: MessageMetadata where
  "no_metadata = \<lparr>tokens = None, processingTime = None, model = None, promptTokens = None,
                   completionTokens = None, totalTokens = None, finishReason = None\<rparr>"

text \<open>\<^verbatim>\<open>{ ...accumulatedMessage.metadata }\<close>: the metadata so far, or an empty object.\<close>

definition spread_metadata :: "ChatMessage \<Rightarrow> MessageMetadata" where
  "spread_metadata m = (case metadata_msg m of None \<Rightarrow> no_metadata | Some md \<Rightarrow> md)"

text \<open>\<^verbatim>\<open>responseSubject.next({ ...accumulatedMessage })\<close>.\<close>

definition emit :: "assembler \<Rightarrow> assembler" where
  "emit st = st\<lparr>responseSubject := responseSubject st @ [accumulatedMessage st]\<rparr>"

text \<open>
  The body of the loop over the lines of a chunk. A line that does not parse, and a line
  that parses to \<^verbatim>\<open>null\<close> (reading \<^verbatim>\<open>json.choices\<close> throws), are caught and logged.
\<close>

definition processLine :: "stream_env \<Rightarrow> assembler \<Rightarrow> string \<Rightarrow> assembler" where
  "processLine env st line =
     (let jsonStr = trim (strip_data_prefix line) in
      if jsonStr = [] then st
      else (case JSON_parse_line env jsonStr of
              None \<Rightarrow> st
            | Some json \<Rightarrow>
                (case get_prop (Some json) ''choices'' of
                   Inl error \<Rightarrow> st
                 | Inr choices \<Rightarrow>
                     (let delta_content =
                            opt_chain (opt_chain (index0 choices) ''delta'') ''content'';
                          st1 = (if truthy choices \<and> truthy delta_content
                                 then emit (st\<lparr>accumulatedMessage := (accumulatedMessage st)
                                        \<lparr>content := content (accumulatedMessage st)
                                                      @ js_string_of delta_content\<rparr>\<rparr>)
                                 else st);
                          usage = field (Some json) ''usage'';
                          st2 = (if truthy usage
                                 then st1\<lparr>service := updateTokenUsage (field usage ''total_tokens'')
                                                         (service st1),
                                          accumulatedMessage := (accumulatedMessage st1)
                                            \<lparr>metadata_msg := Some ((spread_metadata (accumulatedMessage st1))
                                               \<lparr>totalTokens := num_of (field usage ''total_tokens''),
                                                promptTokens := num_of (field usage ''prompt_tokens''),
                                                completionTokens :=
                                                  num_of (field usage ''completion_tokens'')\<rparr>)\<rparr>\<rparr>
                                 else st1);
                          finish_reason = opt_chain (index0 choices) ''finish_reason''
                      in if truthy choices \<and> truthy finish_reason
                         then st2\<lparr>accumulatedMessage := (accumulatedMessage st2)
                                \<lparr>metadata_msg := Some ((spread_metadata (accumulatedMessage st2))
                                   \<lparr>finishReason := str_of finish_reason\<rparr>)\<rparr>\<rparr>
                         else st2))))"

definition handleStreamingError :: "stream_env \<Rightarrow> thrown \<Rightarrow> assembler \<Rightarrow> assembler" where
  "handleStreamingError env error st =
     (let errorMessage_msg =
            \<lparr>id_msg = error_uuid env, sender = SYSTEM,
             content = ''Error: '' @ getErrorMessage error,
             timestamp = end_time env, isError = Some True, isPending = None,
             metadata_msg = None\<rparr>
      in st\<lparr>service := setError True (Some (getErrorMessage error)) (Some error) None (service st),
            responseSubject := responseSubject st @ [errorMessage_msg],
            completed := True\<rparr>)"

text \<open>
  \<^verbatim>\<open>readStream\<close>: each \<^verbatim>\<open>reader.read()\<close> yields a chunk, or is rejected; the end of
  the list is \<^verbatim>\<open>done\<close>.
\<close>

datatype read_result = Chunk string | Rejected thrown

fun readStream :: "stream_env \<Rightarrow> int \<Rightarrow> read_result list \<Rightarrow> assembler \<Rightarrow> assembler" where
  "readStream env startTime [] st =
     (let m = (accumulatedMessage st)
                \<lparr>isPending := Some False,
                 metadata_msg := Some ((spread_metadata (accumulatedMessage st))
                    \<lparr>processingTime := Some (end_time env - startTime),
                     model := Some (defaultModel (service st))\<rparr>)\<rparr>
      in (emit (st\<lparr>accumulatedMessage := m\<rparr>))
           \<lparr>completed := True, service := setLoading False None None (service st)\<rparr>)"
| "readStream env startTime (Chunk chunk # reads) st =
     readStream env startTime reads (foldl (processLine env) st (chunk_lines chunk))"
| "readStream env startTime (Rejected error # reads) st =
     (let st' = handleStreamingError env error st
      in st'\<lparr>service := setLoading False None None (service st')\<rparr>)"

text \<open>What \<^verbatim>\<open>fetch\<close> resolves to: a rejection, or a response with its status and body.\<close>

datatype fetch_result =
    Fetch_rejected thrown
  | Fetch_response bool nat "read_result list option"

definition setupStreamingRequest ::
    "stream_env \<Rightarrow> int \<Rightarrow> fetch_result \<Rightarrow> assembler \<Rightarrow> assembler" where
  "setupStreamingRequest env startTime fetched st =
     (let failed = (\<lambda>error. let st' = handleStreamingError env error st
                            in st'\<lparr>service := setLoading False None None (service st')\<rparr>)
      in case fetched of
           Fetch_rejected error \<Rightarrow> failed error
         | Fetch_response ok status body \<Rightarrow>
             if \<not> ok then failed (Error_instance (''HTTP error! status: '' @ show_nat status))
             else (case body of
                     None \<Rightarrow> failed (Error_instance ''Response body is null'')
                   | Some reads \<Rightarrow> readStream env startTime reads st))"

text \<open>
  \<^verbatim>\<open>sendMessage\<close> with \<^verbatim>\<open>streamResponse\<close> set, through \<^verbatim>\<open>streamChatCompletion\<close>: the
  result is the assembler after the whole response has been read.
\<close>

definition streamChatCompletion ::
    "stream_env \<Rightarrow> string \<Rightarrow> int \<Rightarrow> int \<Rightarrow> fetch_result \<Rightarrow> AiService \<Rightarrow> assembler" where
  "streamChatCompletion env message_uuid startTime created fetched a =
     setupStreamingRequest env startTime fetched
       \<lparr>accumulatedMessage =
          \<lparr>id_msg = message_uuid, sender = AI, content = [], timestamp = created,
           isError = None, isPending = Some True, metadata_msg = None\<rparr>,
        responseSubject = [],
        completed = False,
        service = a\<rparr>"

definition sendMessage_streaming ::
    "stream_env \<Rightarrow> string \<Rightarrow> int \<Rightarrow> int \<Rightarrow> fetch_result \<Rightarrow> AiService \<Rightarrow> assembler" where
  "sendMessage_streaming env message_uuid startTime created fetched a =
     streamChatCompletion env message_uuid startTime created fetched
       (clearError (setLoading True (Some ''Generating AI response...'') None a))"


section \<open>Sequences of calls and what the properties speak of\<close>

text \<open>Successive \<^verbatim>\<open>addMessage\<close> calls, one per message of the list.\<close>

fun addMessages :: "env \<Rightarrow> ChatMessage list \<Rightarrow> store \<Rightarrow> store option" where
  "addMessages e [] s = Some s"
| "addMessages e (message # rest) s =
     (case addMessage e message s of
        None \<Rightarrow> None
      | Some s' \<Rightarrow> addMessages e rest s')"

text \<open>The three mutations of the store that a user of the service can ask for.\<close>

datatype mutation =
    CreateNewConversation "string option"
  | AddMessage ChatMessage
  | ClearCurrentConversation

fun mutate :: "env \<Rightarrow> mutation \<Rightarrow> store \<Rightarrow> store option" where
  "mutate e (CreateNewConversation title_arg) s = Some (snd (createNewConversation e title_arg s))"
| "mutate e (AddMessage message) s = addMessage e message s"
| "mutate e ClearCurrentConversation s = Some (snd (clearCurrentConversation e s))"

fun mutations :: "env \<Rightarrow> mutation list \<Rightarrow> store \<Rightarrow> store option" where
  "mutations e [] s = Some s"
| "mutations e (m # ms) s =
     (case mutate e m s of
        None \<Rightarrow> None
      | Some s' \<Rightarrow> mutations e ms s')"

text \<open>The metadata of the active conversation, and the length of its message list.\<close>

definition active_metadata :: "store option \<Rightarrow> ConversationMetadata option" where
  "active_metadata r = (case r of
     None \<Rightarrow> None
   | Some s \<Rightarrow> map_option metadata (currentConversationSubject s))"

definition active_messages :: "store option \<Rightarrow> ChatMessage list option" where
  "active_messages r = (case r of
     None \<Rightarrow> None
   | Some s \<Rightarrow> map_option messages (currentConversationSubject s))"

definition counters_ok :: "ConversationMetadata \<Rightarrow> bool" where
  "counters_ok md = (userMessageCount md + aiMessageCount md \<le> totalMessages md)"

text \<open>
  The state before a first \<^verbatim>\<open>addMessage\<close> or \<^verbatim>\<open>createNewConversation\<close> draws an
  identifier: nothing is stored yet under the identifier that \<^verbatim>\<open>uuidv4()\<close> returns next.
\<close>

definition next_uuid_unused :: "env \<Rightarrow> store \<Rightarrow> bool" where
  "next_uuid_unused e s = (localStorage s (conversation_key e (uuidv4 e (uuids s))) = None)"

text \<open>\<^verbatim>\<open>importConversation(exportConversation(id), replace)\<close>.\<close>

definition export_then_import ::
    "env \<Rightarrow> string \<Rightarrow> bool \<Rightarrow> store \<Rightarrow> (string option \<times> store) option" where
  "export_then_import e conversationId replace s =
     (case exportConversation e (Some conversationId) s of
        (exported, s1) \<Rightarrow> importConversation e exported replace s1)"

text \<open>
  What \<^verbatim>\<open>importConversation\<close> makes of the metadata it parsed: \<^verbatim>\<open>saveConversation\<close> sets
  \<open>updatedAt\<close>, and an identifier already in the index, unless \<open>replace\<close> is set, gives
  way to a new one with the title marked as imported.
\<close>

definition imported_metadata :: "env \<Rightarrow> bool \<Rightarrow> store \<Rightarrow> ConversationMetadata \<Rightarrow> ConversationMetadata" where
  "imported_metadata e replace s md =
     (if some_id (id_conv md) (conversationsSubject s) = Inr True \<and> \<not> replace
      then md\<lparr>id_conv := uuidv4 e (uuids s),
              title := Some ((case title md of
                                Some ti \<Rightarrow> if ti \<noteq> [] then ti else ''Imported Conversation''
                              | None \<Rightarrow> ''Imported Conversation'') @ '' (Imported)''),
              updatedAt := Date_now e (clock s)\<rparr>
      else md\<lparr>updatedAt := Date_now e (clock s)\<rparr>)"

text \<open>
  An event that carries a content delta, as the assembler reads it: \<open>choices\<close> is truthy
  and \<^verbatim>\<open>choices[0]?.delta?.content\<close> is the non-empty string \<open>d\<close>. A line of the stream
  that holds such an event.
\<close>

definition carries_delta :: "json \<Rightarrow> string \<Rightarrow> bool" where
  "carries_delta event d =
     (truthy (field (Some event) ''choices'')
      \<and> opt_chain (opt_chain (index0 (field (Some event) ''choices'')) ''delta'') ''content''
          = Some (JStr d)
      \<and> d \<noteq> [])"

definition delta_line :: "stream_env \<Rightarrow> string \<Rightarrow> string \<Rightarrow> bool" where
  "delta_line env line d =
     (trim (strip_data_prefix line) \<noteq> []
      \<and> (case JSON_parse_line env (trim (strip_data_prefix line)) of
            None \<Rightarrow> False
          | Some event \<Rightarrow> carries_delta event d))"

text \<open>A line whose payload \<^verbatim>\<open>JSON.parse\<close> rejects.\<close>

definition unparsable_line :: "stream_env \<Rightarrow> string \<Rightarrow> bool" where
  "unparsable_line env line = (JSON_parse_line env (trim (strip_data_prefix line)) = None)"

text \<open>The assembler of a streaming request whose response arrives in the given chunks.\<close>

definition assemble :: "stream_env \<Rightarrow> string \<Rightarrow> int \<Rightarrow> int \<Rightarrow> AiService \<Rightarrow> string list \<Rightarrow> assembler" where
  "assemble env message_uuid startTime created a chunks =
     sendMessage_streaming env message_uuid startTime created
       (Fetch_response True 200 (Some (map Chunk chunks))) a"


section \<open>Concrete inputs\<close>

definition demo_message :: "string \<Rightarrow> MessageSender \<Rightarrow> string \<Rightarrow> ChatMessage" where
  "demo_message i who t =
     \<lparr>id_msg = i, sender = who, content = t, timestamp = 1000,
      isError = None, isPending = None, metadata_msg = None\<rparr>"

text \<open>
  A development configuration with a cap of two messages, a clock that advances by one
  millisecond per reading, identifiers \<open>conv-0\<close>, \<open>conv-1\<close>, ..., and a storage that
  accepts every write.
\<close>

definition demo_env :: env where
  "demo_env =
     \<lparr>CHAT_HISTORY_KEY = ''ai_chat_history_dev'',
      MAX_HISTORY_ITEMS = 2,
      Date_now = (\<lambda>n. 5000 + int n),
      uuidv4 = (\<lambda>n. ''conv-'' @ show_nat n),
      setItem_ok = (\<lambda>stored k v. True)\<rparr>"

text \<open>The service before its constructor has run, on an empty \<^verbatim>\<open>localStorage\<close>.\<close>

definition empty_store :: store where
  "empty_store =
     \<lparr>localStorage = Map.empty,
      activeConversationId = None,
      conversationsSubject = [],
      currentConversationSubject = None,
      storageErrorSubject = None,
      saveSubject = [],
      clock = 0,
      uuids = 0\<rparr>"

text \<open>A stored conversation with one message, marked as favourite, and a store where it is active.\<close>

definition demo_conversation :: ChatHistory where
  "demo_conversation =
     \<lparr>messages = [demo_message ''m0'' USER ''zero''],
      metadata =
        \<lparr>id_conv = ''conv-0'', title = Some ''Demo'', createdAt = 4000, updatedAt = 4001,
         totalMessages = 1, userMessageCount = 1, aiMessageCount = 0,
         totalTokensUsed = Some 0, tags = Some [], isFavorite = Some True,
         isArchived = Some False\<rparr>\<rparr>"

definition demo_active :: store where
  "demo_active =
     \<lparr>localStorage =
        [conversation_key demo_env ''conv-0'' \<mapsto> Json (json_of_ChatHistory demo_conversation)],
      activeConversationId = Some ''conv-0'',
      conversationsSubject = [Some (metadata demo_conversation)],
      currentConversationSubject = Some demo_conversation,
      storageErrorSubject = None,
      saveSubject = [],
      clock = 2,
      uuids = 1\<rparr>"

text \<open>
  The same store with a second record whose only message has no content, as an edited or
  foreign export would leave it.
\<close>

definition broken_message :: json where
  "broken_message = JObj [(''id'', JStr ''m1''), (''sender'', JStr ''user''), (''timestamp'', JNum 5)]"

definition broken_conversation :: json where
  "broken_conversation =
     JObj [(''messages'', JArr [broken_message]),
           (''metadata'', JObj [(''id'', JStr ''conv-9''), (''createdAt'', JNum 1),
                               (''updatedAt'', JNum 2)])]"

definition broken_store :: store where
  "broken_store =
     demo_active\<lparr>localStorage :=
       (localStorage demo_active)(conversation_key demo_env ''conv-9'' \<mapsto> Json broken_conversation)\<rparr>"

text \<open>
  A storage that refuses every write, as a full \<^verbatim>\<open>localStorage\<close> does, and a store whose
  one conversation is not a favourite.
\<close>

definition full_env :: env where
  "full_env = demo_env\<lparr>setItem_ok := (\<lambda>stored k v. False)\<rparr>"

definition plain_conversation :: ChatHistory where
  "plain_conversation =
     demo_conversation\<lparr>metadata := (metadata demo_conversation)\<lparr>isFavorite := Some False\<rparr>\<rparr>"

definition plain_store :: store where
  "plain_store =
     demo_active
       \<lparr>localStorage :=
          [conversation_key demo_env ''conv-0'' \<mapsto> Json (json_of_ChatHistory plain_conversation)],
        conversationsSubject := [Some (metadata plain_conversation)],
        currentConversationSubject := Some plain_conversation\<rparr>"

text \<open>
  A streamed response. Its events are the JSON texts
  \<^verbatim>\<open>{"choices":[{"delta":{"content":"He"}}]}\<close> and the same with \<^verbatim>\<open>llo\<close>; the second response
  has, between its two events, the line \<^verbatim>\<open>data: {"choices":[{"delta"\<close>, an event cut short,
  which is not JSON. The stand-in for \<^verbatim>\<open>JSON.parse\<close> reads an event text whose content is
  a run of letters as \<^verbatim>\<open>JSON.parse\<close> does, and rejects every other text; of the texts it
  rejects, only the one cut short occurs in these responses.
\<close>

definition quoted :: "string \<Rightarrow> string" where
  "quoted t = CHR 0x22 # t @ [CHR 0x22]"

definition delta_text :: "string \<Rightarrow> string" where
  "delta_text d =
     ''{'' @ quoted ''choices'' @ '':[{'' @ quoted ''delta'' @ '':{'' @ quoted ''content'' @ '':''
       @ quoted d @ ''}}]}''"

definition cut_text :: string where
  "cut_text = ''{'' @ quoted ''choices'' @ '':[{'' @ quoted ''delta''"

definition delta_event :: "string \<Rightarrow> json" where
  "delta_event d = JObj [(''choices'', JArr [JObj [(''delta'', JObj [(''content'', JStr d)])]])]"

definition letters :: "string \<Rightarrow> bool" where
  "letters d = list_all (\<lambda>ch. ch \<in> set ''abcdefghijklmnopqrstuvwxyzABCDEFGHIJKLMNOPQRSTUVWXYZ'') d"

definition demo_parse :: "string \<Rightarrow> json option" where
  "demo_parse t =
     (let d = take (length t - 38) (drop 33 t)
      in if t = delta_text d \<and> letters d then Some (delta_event d) else None)"

definition demo_stream_env :: stream_env where
  "demo_stream_env = \<lparr>JSON_parse_line = demo_parse, end_time = 9000, error_uuid = ''err-0''\<rparr>"

definition idle_service :: AiService where
  "idle_service =
     \<lparr>loadingState = \<lparr>isLoading = False, loadingMessage = None, progress = None,
                       cancelable = None\<rparr>,
      errorState = \<lparr>hasError = False, errorCode = None, errorMessage = None,
                     errorDetails = None, retryable = None\<rparr>,
      tokenUsage = Some 0,
      defaultModel = ''gpt-3.5-turbo''\<rparr>"

definition demo_chunks :: "string list" where
  "demo_chunks =
     [''data: '' @ delta_text ''He'' @ ''\<newline>\<newline>'',
      ''data: '' @ delta_text ''llo'' @ ''\<newline>\<newline>data: [DONE]\<newline>\<newline>'']"

definition demo_chunks_bad :: "string list" where
  "demo_chunks_bad =
     [''data: '' @ delta_text ''He'' @ ''\<newline>\<newline>data: '' @ cut_text @ ''\<newline>\<newline>'',
      ''data: '' @ delta_text ''llo'' @ ''\<newline>\<newline>data: [DONE]\<newline>\<newline>'']"

text \<open>The invariant of the counters, on the state of the service.\<close>

definition store_counters_ok :: "env \<Rightarrow> store \<Rightarrow> bool" where
  "store_counters_ok e s =
     (case currentConversationSubject s of
        Some c \<Rightarrow> counters_ok (metadata c)
      | None \<Rightarrow> next_uuid_unused e s)"

section \<open>The JSON form of a conversation reads back\<close>

lemma map_of_opt_prop_other:
  "k' \<noteq> k \<Longrightarrow> map_of (opt_prop k enc v @ rest) k' = map_of rest k'"
  by (simp add: opt_prop_def split: option.splits)

lemma map_of_opt_prop_same:
  "map_of rest k = None \<Longrightarrow> map_of (opt_prop k enc v @ rest) k = map_option enc v"
  by (simp add: opt_prop_def split: option.splits)

lemma map_of_opt_prop_last:
  "map_of (opt_prop k enc v) k' = (if k' = k then map_option enc v else None)"
  by (simp add: opt_prop_def split: option.splits)

lemmas map_of_props = map_of_opt_prop_other map_of_opt_prop_same map_of_opt_prop_last

lemma opt_num_JNum: "opt_num (map_option JNum v) = Some v"
  by (cases v) (simp_all add: opt_num_def)

lemma opt_str_JStr: "opt_str (map_option JStr v) = Some v"
  by (cases v) (simp_all add: opt_str_def)

lemma opt_bool_JBool: "opt_bool (map_option JBool v) = Some v"
  by (cases v) (simp_all add: opt_bool_def)

lemma read_strs_map: "read_strs (map JStr ts) = Some ts"
  by (induction ts) auto

lemma opt_strs_JArr: "opt_strs (map_option (\<lambda>ts. JArr (map JStr ts)) v) = Some v"
  by (cases v) (simp_all add: opt_strs_def read_strs_map)

lemmas read_opts = opt_num_JNum opt_str_JStr opt_bool_JBool opt_strs_JArr

lemma read_MessageMetadata_json: "read_MessageMetadata (json_of_MessageMetadata m) = Some m"
  by (simp add: read_MessageMetadata_def json_of_MessageMetadata_def map_of_props read_opts
      del: map_of_append)

lemma read_MessageSender_json: "read_MessageSender (Some (json_of_MessageSender who)) = Some who"
  by (cases who) (simp_all add: read_MessageSender_def)

lemma opt_MessageMetadata_json:
  "opt_MessageMetadata (map_option json_of_MessageMetadata v) = Some v"
  by (cases v) (simp_all add: opt_MessageMetadata_def read_MessageMetadata_json)

lemma read_ChatMessage_json: "read_ChatMessage (json_of_ChatMessage m) = Some m"
  by (simp add: read_ChatMessage_def json_of_ChatMessage_def map_of_props read_opts
      req_str_def req_num_def read_MessageSender_json opt_MessageMetadata_json
      del: map_of_append)

lemma read_ChatMessages_json: "read_ChatMessages (map json_of_ChatMessage ms) = Some ms"
  by (induction ms) (simp_all add: read_ChatMessage_json)

lemma read_ConversationMetadata_json:
  "read_ConversationMetadata (json_of_ConversationMetadata m) = Some m"
  by (simp add: read_ConversationMetadata_def json_of_ConversationMetadata_def
      map_of_props read_opts req_str_def req_num_def del: map_of_append)

lemma read_ChatHistory_json: "read_ChatHistory (json_of_ChatHistory c) = Some c"
  by (simp add: read_ChatHistory_def json_of_ChatHistory_def read_ChatMessages_json
      read_ConversationMetadata_json)

lemma as_ChatHistory_json: "as_ChatHistory (json_of_ChatHistory c) = Some c"
  by (simp add: as_ChatHistory_def read_ChatHistory_json)

lemma as_ChatHistory_Some: "as_ChatHistory v = Some c \<Longrightarrow> v = json_of_ChatHistory c"
  by (auto simp: as_ChatHistory_def split: option.splits if_splits)

section \<open>The request built by sendMessage\<close>

lemma format_loop:
  "foldl (\<lambda>formattedMessages message.
            if sender message = SYSTEM \<or> isError message = Some True
            then formattedMessages
            else formattedMessages @
                   [\<lparr>role = (if sender message = USER then ''user'' else ''assistant''),
                     content_api = content message\<rparr>])
         acc history
   = acc @ map (\<lambda>m. \<lparr>role = (if sender m = USER then ''user'' else ''assistant''),
                        content_api = content m\<rparr>)
               (filter (\<lambda>m. sender m \<noteq> SYSTEM \<and> isError m \<noteq> Some True) history)"
  by (induction history arbitrary: acc) simp_all

text \<open>
  C9. For every history and every new user message, the message list of the request that
  \<^verbatim>\<open>sendMessage\<close> builds is: the fixed system instruction; then, in order, the history
  entries whose sender is not \<open>SYSTEM\<close> and whose \<open>isError\<close> is not set, each as role
  \<open>user\<close> (sender \<open>USER\<close>) or \<open>assistant\<close> (any other sender) with its content unchanged;
  then the new user message as a \<open>user\<close> turn.
\<close>

theorem request_messages:
  "messages_req (requestPayload model_id defaultParams userMessage history streamResponse)
   = \<lparr>role = ''system'',
       content_api = ''You are a helpful AI assistant. Provide concise, accurate, and helpful responses.''\<rparr>
     # map (\<lambda>m. \<lparr>role = (if sender m = USER then ''user'' else ''assistant''),
                   content_api = content m\<rparr>)
           (filter (\<lambda>m. sender m \<noteq> SYSTEM \<and> isError m \<noteq> Some True) history)
     @ [\<lparr>role = ''user'', content_api = userMessage\<rparr>]"
  by (simp add: requestPayload_def formatConversationForApi_def format_loop)

theorem request_messages_witness:
  "messages_req (requestPayload ''gpt-4'' () ''Bye''
      [demo_message ''m1'' USER ''Hi'',
       demo_message ''m2'' AI ''Hello'',
       demo_message ''m3'' SYSTEM ''Streaming mode enabled.'',
       (demo_message ''m4'' AI ''Error: boom'')\<lparr>isError := Some True\<rparr>] False)
   = [\<lparr>role = ''system'',
        content_api = ''You are a helpful AI assistant. Provide concise, accurate, and helpful responses.''\<rparr>,
      \<lparr>role = ''user'', content_api = ''Hi''\<rparr>,
      \<lparr>role = ''assistant'', content_api = ''Hello''\<rparr>,
      \<lparr>role = ''user'', content_api = ''Bye''\<rparr>]"
  using request_messages [of "''gpt-4''" "()" "''Bye''"
      "[demo_message ''m1'' USER ''Hi'',
       demo_message ''m2'' AI ''Hello'',
       demo_message ''m3'' SYSTEM ''Streaming mode enabled.'',
       (demo_message ''m4'' AI ''Error: boom'')\<lparr>isError := Some True\<rparr>]" False]
  by (simp add: demo_message_def)

section \<open>Appending messages\<close>

lemma pushMessage_messages:
  "messages (pushMessage e m c)
   = drop (Suc (length (messages c)) - MAX_HISTORY_ITEMS e) (messages c @ [m])"
  by (simp add: pushMessage_def Let_def)

lemma pushMessage_totalMessages:
  "totalMessages (metadata (pushMessage e m c)) = totalMessages (metadata c) + 1"
  by (simp add: pushMessage_def Let_def split: option.splits)

lemma pushMessage_counts:
  "userMessageCount (metadata (pushMessage e m c)) + aiMessageCount (metadata (pushMessage e m c))
   = userMessageCount (metadata c) + aiMessageCount (metadata c)
     + (if sender m = SYSTEM then 0 else 1)"
  by (cases "sender m") (simp_all add: pushMessage_def Let_def split: option.splits)

lemma pushMessage_keeps:
  "id_conv (metadata (pushMessage e m c)) = id_conv (metadata c)"
  "createdAt (metadata (pushMessage e m c)) = createdAt (metadata c)"
  by (simp_all add: pushMessage_def Let_def split: option.splits)

lemma addMessage_active:
  "currentConversationSubject s = Some c \<Longrightarrow>
   addMessage e m s = Some (s\<lparr>currentConversationSubject := Some (pushMessage e m c),
                              saveSubject := saveSubject s @ [pushMessage e m c]\<rparr>)"
  by (simp add: Let_def)

lemma addMessages_active:
  "currentConversationSubject s = Some c \<Longrightarrow>
   \<exists>s'. addMessages e ms s = Some s'
      \<and> currentConversationSubject s' = Some (foldl (\<lambda>c m. pushMessage e m c) c ms)
      \<and> localStorage s' = localStorage s"
proof (induction ms arbitrary: s c)
  case Nil
  then show ?case by simp
next
  case (Cons m ms)
  let ?s1 = "s\<lparr>currentConversationSubject := Some (pushMessage e m c),
               saveSubject := saveSubject s @ [pushMessage e m c]\<rparr>"
  have "addMessage e m s = Some ?s1"
    using Cons.prems by (rule addMessage_active)
  moreover have "currentConversationSubject ?s1 = Some (pushMessage e m c)" by simp
  from Cons.IH [OF this] obtain s' where
    "addMessages e ms ?s1 = Some s'"
    "currentConversationSubject s' = Some (foldl (\<lambda>c m. pushMessage e m c) (pushMessage e m c) ms)"
    "localStorage s' = localStorage ?s1"
    by blast
  ultimately show ?case by simp
qed

lemma drop_last_drop:
  "drop (length (drop (length xs - n) xs @ ys) - n) (drop (length xs - n) xs @ ys)
   = drop (length (xs @ ys) - n) (xs @ ys)"
proof -
  let ?a = "length xs - n"
  have app: "drop ?a xs @ ys = drop ?a (xs @ ys)" by simp
  have "length (drop ?a (xs @ ys)) - n + ?a = length (xs @ ys) - n" by auto
  then show ?thesis
    unfolding app drop_drop by simp
qed

lemma foldl_pushMessage_messages:
  "ms \<noteq> [] \<Longrightarrow>
   messages (foldl (\<lambda>c m. pushMessage e m c) c ms)
   = drop (length (messages c @ ms) - MAX_HISTORY_ITEMS e) (messages c @ ms)"
proof (induction ms arbitrary: c rule: rev_induct)
  case Nil
  then show ?case by simp
next
  case (snoc m ms)
  show ?case
  proof (cases "ms = []")
    case True
    then show ?thesis by (simp add: pushMessage_messages)
  next
    case False
    from snoc.IH [OF this]
    have "messages (foldl (\<lambda>c m. pushMessage e m c) c ms)
          = drop (length (messages c @ ms) - MAX_HISTORY_ITEMS e) (messages c @ ms)" .
    then show ?thesis
      using drop_last_drop [of "messages c @ ms" "MAX_HISTORY_ITEMS e" "[m]"]
      by (simp add: pushMessage_messages)
  qed
qed

lemma foldl_pushMessage_totalMessages:
  "totalMessages (metadata (foldl (\<lambda>c m. pushMessage e m c) c ms))
   = totalMessages (metadata c) + int (length ms)"
  by (induction ms arbitrary: c) (simp_all add: pushMessage_totalMessages)

subsection \<open>What the saving helpers leave alone\<close>

lemma saveConversationsIndex_frame:
  "currentConversationSubject (saveConversationsIndex e cs s) = currentConversationSubject s"
  "activeConversationId (saveConversationsIndex e cs s) = activeConversationId s"
  "saveSubject (saveConversationsIndex e cs s) = saveSubject s"
  "conversationsSubject (saveConversationsIndex e cs s) = conversationsSubject s"
  "uuids (saveConversationsIndex e cs s) = uuids s"
  "clock (saveConversationsIndex e cs s) = clock s"
  by (simp_all add: saveConversationsIndex_def localStorage_setItem_def handleStorageError_def)

lemma saveConversationsIndex_storage:
  "localStorage (saveConversationsIndex e cs s) k = localStorage s k
   \<or> (k = index_key e \<and> localStorage (saveConversationsIndex e cs s) k
         = Some (Json (JArr (map json_of_index_entry cs))))"
  by (simp add: saveConversationsIndex_def localStorage_setItem_def handleStorageError_def
      JSON_stringify_def)

lemma updateConversationInIndex_frame:
  assumes "updateConversationInIndex e md s = Inr s'"
  shows "currentConversationSubject s' = currentConversationSubject s"
    and "activeConversationId s' = activeConversationId s"
    and "saveSubject s' = saveSubject s"
    and "uuids s' = uuids s"
    and "clock s' = clock s"
  using assms
  by (auto simp: updateConversationInIndex_def Let_def saveConversationsIndex_frame
      split: sum.splits)

lemma updateConversationInIndex_storage:
  assumes "updateConversationInIndex e md s = Inr s'"
  shows "localStorage s' k = localStorage s k
   \<or> (k = index_key e \<and> (\<exists>cs. localStorage s' k = Some (Json (JArr cs))))"
proof -
  obtain found where found: "findIndex_id (id_conv md) (conversationsSubject s) = Inr found"
    using assms by (auto simp: updateConversationInIndex_def Let_def split: sum.splits)
  let ?cs = "case found of
               Some index \<Rightarrow> (conversationsSubject s)[index := Some md]
             | None \<Rightarrow> conversationsSubject s @ [Some md]"
  have "s' = saveConversationsIndex e ?cs (s\<lparr>conversationsSubject := ?cs\<rparr>)"
    using assms found by (simp add: updateConversationInIndex_def Let_def)
  then show ?thesis
    using saveConversationsIndex_storage [of e ?cs "s\<lparr>conversationsSubject := ?cs\<rparr>" k]
    by auto
qed

lemma updateConversationTimestamp_frame:
  assumes "updateConversationTimestamp e i s = Inr s'"
  shows "currentConversationSubject s' = currentConversationSubject s"
    and "activeConversationId s' = activeConversationId s"
    and "saveSubject s' = saveSubject s"
    and "uuids s' = uuids s"
  using assms
  by (auto simp: updateConversationTimestamp_def Let_def now_def saveConversationsIndex_frame
      split: sum.splits option.splits)

text \<open>\<^verbatim>\<open>saveConversation\<close>: the conversation it returns, and the state it leaves.\<close>

lemma saveConversation_result:
  "fst (saveConversation e c s)
   = c\<lparr>metadata := (metadata c)\<lparr>updatedAt := Date_now e (clock s)\<rparr>\<rparr>"
  by (simp add: saveConversation_def now_def Let_def split: sum.splits)

text \<open>The three ways in which \<^verbatim>\<open>saveConversation\<close> ends.\<close>

lemma saveConversation_cases:
  fixes e c s
  defines "c' \<equiv> c\<lparr>metadata := (metadata c)\<lparr>updatedAt := Date_now e (clock s)\<rparr>\<rparr>"
  defines "key \<equiv> conversation_key e (id_conv (metadata c))"
  defines "s1 \<equiv> s\<lparr>clock := Suc (clock s)\<rparr>"
  defines "s2 \<equiv> s\<lparr>clock := Suc (clock s),
                    localStorage := (localStorage s)(key \<mapsto> Json (json_of_ChatHistory c'))\<rparr>"
  obtains (refused) "\<not> setItem_ok e (localStorage s) key (Json (json_of_ChatHistory c'))"
      "saveConversation e c s
         = (c', s1\<lparr>storageErrorSubject := Some (''Failed to save conversation'', QuotaExceededError)\<rparr>)"
    | (scan_threw) error where "setItem_ok e (localStorage s) key (Json (json_of_ChatHistory c'))"
      "saveConversation e c s
         = (c', s2\<lparr>storageErrorSubject := Some (''Failed to save conversation'', error)\<rparr>)"
    | (saved) s3 where "setItem_ok e (localStorage s) key (Json (json_of_ChatHistory c'))"
      "updateConversationInIndex e (metadata c') s2 = Inr s3"
      "saveConversation e c s = (c', s3\<lparr>storageErrorSubject := None\<rparr>)"
proof (cases "setItem_ok e (localStorage s) key (Json (json_of_ChatHistory c'))")
  case False
  then have "saveConversation e c s
      = (c', s1\<lparr>storageErrorSubject := Some (''Failed to save conversation'', QuotaExceededError)\<rparr>)"
    by (simp add: saveConversation_def now_def Let_def localStorage_setItem_def
        handleStorageError_def JSON_stringify_def c'_def key_def s1_def)
  with False show ?thesis by (rule refused)
next
  case True
  show ?thesis
  proof (cases "updateConversationInIndex e (metadata c') s2")
    case (Inl error)
    with True have "saveConversation e c s
        = (c', s2\<lparr>storageErrorSubject := Some (''Failed to save conversation'', error)\<rparr>)"
      by (simp add: saveConversation_def now_def Let_def localStorage_setItem_def
          handleStorageError_def JSON_stringify_def c'_def key_def s2_def)
    with True show ?thesis by (rule scan_threw)
  next
    case (Inr s3)
    with True have "saveConversation e c s = (c', s3\<lparr>storageErrorSubject := None\<rparr>)"
      by (simp add: saveConversation_def now_def Let_def localStorage_setItem_def
          JSON_stringify_def c'_def key_def s2_def)
    with True Inr show ?thesis by (rule saved)
  qed
qed

lemma saveConversation_frame:
  "currentConversationSubject (snd (saveConversation e c s)) = currentConversationSubject s"
  "activeConversationId (snd (saveConversation e c s)) = activeConversationId s"
  "saveSubject (snd (saveConversation e c s)) = saveSubject s"
  "uuids (snd (saveConversation e c s)) = uuids s"
  "clock (snd (saveConversation e c s)) = Suc (clock s)"
  by (cases e c s rule: saveConversation_cases;
      simp add: updateConversationInIndex_frame)+

lemma saveConversation_storage:
  "localStorage (snd (saveConversation e c s)) k = localStorage s k
   \<or> localStorage (snd (saveConversation e c s)) k
       = Some (Json (json_of_ChatHistory (fst (saveConversation e c s))))
   \<or> (\<exists>cs. localStorage (snd (saveConversation e c s)) k = Some (Json (JArr cs)))"
proof (cases e c s rule: saveConversation_cases)
  case refused
  then show ?thesis by simp
next
  case (scan_threw error)
  then show ?thesis by simp
next
  case (saved s3)
  then show ?thesis
    using updateConversationInIndex_storage [OF saved(2), of k] by auto
qed

text \<open>The conversation that \<^verbatim>\<open>createNewConversation\<close> makes active.\<close>

lemma createNewConversation_result:
  "\<exists>md. fst (createNewConversation e t s) = uuidv4 e (uuids s)
      \<and> currentConversationSubject (snd (createNewConversation e t s))
          = Some \<lparr>messages = [], metadata = md\<rparr>
      \<and> activeConversationId (snd (createNewConversation e t s)) = Some (uuidv4 e (uuids s))
      \<and> id_conv md = uuidv4 e (uuids s)
      \<and> totalMessages md = 0 \<and> userMessageCount md = 0 \<and> aiMessageCount md = 0
      \<and> totalTokensUsed md = Some 0
      \<and> (\<forall>k. localStorage (snd (createNewConversation e t s)) k = localStorage s k
             \<or> localStorage (snd (createNewConversation e t s)) k
                 = Some (Json (json_of_ChatHistory \<lparr>messages = [], metadata = md\<rparr>))
             \<or> (\<exists>cs. localStorage (snd (createNewConversation e t s)) k = Some (Json (JArr cs))))"
proof -
  let ?s1 = "s\<lparr>uuids := Suc (uuids s)\<rparr>"
  let ?t = "Date_now e (clock s)"
  let ?s2 = "?s1\<lparr>clock := Suc (clock s)\<rparr>"
  let ?md = "\<lparr>id_conv = uuidv4 e (uuids s),
              title = Some (case t of
                              Some ti \<Rightarrow> if ti \<noteq> [] then ti else ''Conversation '' @ show_int ?t
                            | None \<Rightarrow> ''Conversation '' @ show_int ?t),
              createdAt = ?t, updatedAt = ?t, totalMessages = 0, userMessageCount = 0,
              aiMessageCount = 0, totalTokensUsed = Some 0, tags = Some [],
              isFavorite = Some False, isArchived = Some False\<rparr>"
  let ?c = "\<lparr>messages = [], metadata = ?md\<rparr>"
  let ?c' = "fst (saveConversation e ?c ?s2)"
  let ?s3 = "snd (saveConversation e ?c ?s2)"
  let ?cs = "conversationsSubject ?s3 @ [Some (metadata ?c')]"
  let ?s4 = "saveConversationsIndex e ?cs (?s3\<lparr>conversationsSubject := ?cs\<rparr>)"
  have eq: "createNewConversation e t s
      = (uuidv4 e (uuids s),
         ?s4\<lparr>activeConversationId := Some (uuidv4 e (uuids s)),
              currentConversationSubject := Some ?c'\<rparr>)"
    by (cases t) (simp_all add: createNewConversation_def fresh_uuid_def now_def Let_def split_beta)
  have c': "?c' = \<lparr>messages = [], metadata = ?md\<lparr>updatedAt := Date_now e (Suc (clock s))\<rparr>\<rparr>"
    by (simp add: saveConversation_result)
  have st: "localStorage ?s4 k = localStorage s k
      \<or> localStorage ?s4 k = Some (Json (json_of_ChatHistory ?c'))
      \<or> (\<exists>cs. localStorage ?s4 k = Some (Json (JArr cs)))" for k
    using saveConversation_storage [of e ?c ?s2 k]
      saveConversationsIndex_storage [of e ?cs "?s3\<lparr>conversationsSubject := ?cs\<rparr>" k]
    by auto
  show ?thesis
    apply (rule exI [of _ "?md\<lparr>updatedAt := Date_now e (Suc (clock s))\<rparr>"])
    unfolding eq c' [symmetric]
    using st by (simp add: c')
qed

lemma validateConversation_JArr: "\<exists>error. validateConversation (JArr cs) = Inl error"
  by (simp add: validateConversation_def field_def Let_def)

text \<open>Loading the identifier just created leaves the new conversation active.\<close>

lemma loadConversation_keeps_current:
  assumes cur: "currentConversationSubject s = Some c"
    and st: "localStorage s (conversation_key e i) = None
      \<or> localStorage s (conversation_key e i) = Some (Json (json_of_ChatHistory c))
      \<or> (\<exists>cs. localStorage s (conversation_key e i) = Some (Json (JArr cs)))"
  shows "\<exists>ok s'. loadConversation e i s = Some (ok, s')
      \<and> currentConversationSubject s' = Some c"
proof -
  consider (none) "localStorage s (conversation_key e i) = None"
    | (same) "localStorage s (conversation_key e i) = Some (Json (json_of_ChatHistory c))"
    | (index) cs where "localStorage s (conversation_key e i) = Some (Json (JArr cs))"
    using st by auto
  then show ?thesis
  proof cases
    case none
    then show ?thesis
      using cur by (auto simp: loadConversation_def handleStorageError_def)
  next
    case same
    show ?thesis
    proof (cases "validateConversation (json_of_ChatHistory c)")
      case (Inl error)
      then show ?thesis
        using cur same by (auto simp: loadConversation_def handleStorageError_def)
    next
      case (Inr u)
      let ?s1 = "s\<lparr>activeConversationId := Some i, currentConversationSubject := Some c\<rparr>"
      show ?thesis
      proof (cases "updateConversationTimestamp e i ?s1")
        case (Inl error)
        then show ?thesis
          using Inr same
          by (auto simp: loadConversation_def as_ChatHistory_json handleStorageError_def)
      next
        case scanned: (Inr s2)
        then show ?thesis
          using Inr same updateConversationTimestamp_frame(1) [OF scanned]
          by (auto simp: loadConversation_def as_ChatHistory_json)
      qed
    qed
  next
    case index
    obtain error where "validateConversation (JArr cs) = Inl error"
      using validateConversation_JArr by blast
    then show ?thesis
      using cur index by (auto simp: loadConversation_def handleStorageError_def)
  qed
qed

lemma addMessage_first:
  assumes none: "currentConversationSubject s = None"
    and unused: "next_uuid_unused e s"
  shows "\<exists>s' md. addMessage e m s = Some s'
      \<and> currentConversationSubject s' = Some (pushMessage e m \<lparr>messages = [], metadata = md\<rparr>)
      \<and> totalMessages md = 0 \<and> userMessageCount md = 0 \<and> aiMessageCount md = 0"
proof -
  let ?i = "uuidv4 e (uuids s)"
  let ?s1 = "snd (createNewConversation e None s)"
  obtain md where md:
    "fst (createNewConversation e None s) = ?i"
    "currentConversationSubject ?s1 = Some \<lparr>messages = [], metadata = md\<rparr>"
    "totalMessages md = 0" "userMessageCount md = 0" "aiMessageCount md = 0"
    "\<forall>k. localStorage ?s1 k = localStorage s k
         \<or> localStorage ?s1 k = Some (Json (json_of_ChatHistory \<lparr>messages = [], metadata = md\<rparr>))
         \<or> (\<exists>cs. localStorage ?s1 k = Some (Json (JArr cs)))"
    using createNewConversation_result [of e None s] by blast
  have "localStorage ?s1 (conversation_key e ?i) = None
      \<or> localStorage ?s1 (conversation_key e ?i)
          = Some (Json (json_of_ChatHistory \<lparr>messages = [], metadata = md\<rparr>))
      \<or> (\<exists>cs. localStorage ?s1 (conversation_key e ?i) = Some (Json (JArr cs)))"
    using md(6) [THEN spec, of "conversation_key e ?i"] unused
    by (auto simp: next_uuid_unused_def)
  from loadConversation_keeps_current [OF md(2) this] obtain ok s2 where
    load: "loadConversation e ?i ?s1 = Some (ok, s2)"
    and cur2: "currentConversationSubject s2 = Some \<lparr>messages = [], metadata = md\<rparr>"
    by blast
  have "addMessage e m s = addMessage e m s2"
    using none md(1) load
    by (subst addMessage.simps) (simp add: split_beta)
  also have "\<dots> = Some (s2\<lparr>currentConversationSubject :=
        Some (pushMessage e m \<lparr>messages = [], metadata = md\<rparr>),
      saveSubject := saveSubject s2 @ [pushMessage e m \<lparr>messages = [], metadata = md\<rparr>]\<rparr>)"
    using cur2 by (rule addMessage_active)
  finally show ?thesis
    using md(3-5) by auto
qed

lemma addMessages_from:
  assumes "ms \<noteq> []"
    and "currentConversationSubject s = None \<longrightarrow> next_uuid_unused e s"
  shows "\<exists>s' c0. addMessages e ms s = Some s'
      \<and> currentConversationSubject s' = Some (foldl (\<lambda>c m. pushMessage e m c) c0 ms)
      \<and> (case currentConversationSubject s of
            Some c \<Rightarrow> c0 = c
          | None \<Rightarrow> messages c0 = [] \<and> totalMessages (metadata c0) = 0
                    \<and> userMessageCount (metadata c0) = 0 \<and> aiMessageCount (metadata c0) = 0)"
proof (cases "currentConversationSubject s")
  case (Some c)
  then show ?thesis
    using addMessages_active [OF Some, of e ms] by auto
next
  case None
  obtain m rest where ms: "ms = m # rest"
    using assms(1) by (cases ms) auto
  from addMessage_first [of s e m] None assms(2) obtain s1 md where
    first: "addMessage e m s = Some s1"
    and cur1: "currentConversationSubject s1 = Some (pushMessage e m \<lparr>messages = [], metadata = md\<rparr>)"
    and zero: "totalMessages md = 0" "userMessageCount md = 0" "aiMessageCount md = 0"
    by blast
  from addMessages_active [OF cur1, of e rest] obtain s' where
    "addMessages e rest s1 = Some s'"
    "currentConversationSubject s' = Some (foldl (\<lambda>c m. pushMessage e m c)
        (pushMessage e m \<lparr>messages = [], metadata = md\<rparr>) rest)"
    by blast
  then show ?thesis
    using first zero None ms
    by (intro exI [of _ s'] exI [of _ "\<lparr>messages = [], metadata = md\<rparr>"]) simp
qed

text \<open>
  C3. With the cap \<open>N = MAX_HISTORY_ITEMS\<close>, after \<open>N + k\<close> messages (at least one)
  have been appended through \<^verbatim>\<open>addMessage\<close>, the active conversation holds exactly the
  last \<open>N\<close> of them, in the order in which they were appended. This holds whatever the
  conversation held before, and also when no conversation was active and the first call
  had to create one (the identifier drawn being new to the storage).
\<close>

theorem eviction_keeps_newest:
  assumes "length ms = MAX_HISTORY_ITEMS e + k"
    and "ms \<noteq> []"
    and "currentConversationSubject s = None \<longrightarrow> next_uuid_unused e s"
  shows "active_messages (addMessages e ms s) = Some (drop k ms)"
proof -
  from addMessages_from [OF assms(2,3)] obtain s' c0 where
    run: "addMessages e ms s = Some s'"
    and cur: "currentConversationSubject s' = Some (foldl (\<lambda>c m. pushMessage e m c) c0 ms)"
    by blast
  have "messages (foldl (\<lambda>c m. pushMessage e m c) c0 ms)
        = drop (length (messages c0 @ ms) - MAX_HISTORY_ITEMS e) (messages c0 @ ms)"
    using assms(2) by (rule foldl_pushMessage_messages)
  also have "length (messages c0 @ ms) - MAX_HISTORY_ITEMS e = length (messages c0) + k"
    using assms(1) by simp
  also have "drop (length (messages c0) + k) (messages c0 @ ms) = drop k ms"
    by simp
  finally show ?thesis
    using run cur by (simp add: active_messages_def)
qed

theorem eviction_keeps_newest_witness:
  "length [demo_message ''m1'' USER ''one'', demo_message ''m2'' AI ''two'',
           demo_message ''m3'' USER ''three''] = MAX_HISTORY_ITEMS demo_env + 1
   \<and> next_uuid_unused demo_env empty_store
   \<and> active_messages (addMessages demo_env
        [demo_message ''m1'' USER ''one'', demo_message ''m2'' AI ''two'',
         demo_message ''m3'' USER ''three''] empty_store)
      = Some [demo_message ''m2'' AI ''two'', demo_message ''m3'' USER ''three'']"
proof -
  have len: "length [demo_message ''m1'' USER ''one'', demo_message ''m2'' AI ''two'',
      demo_message ''m3'' USER ''three''] = MAX_HISTORY_ITEMS demo_env + 1"
    by (simp add: demo_env_def)
  have unused: "next_uuid_unused demo_env empty_store"
    by (simp add: next_uuid_unused_def empty_store_def)
  show ?thesis
    using eviction_keeps_newest [OF len _ impI [OF unused]] len unused by simp
qed

section \<open>The counters of the active conversation\<close>

text \<open>
  C1, as amended. \<^verbatim>\<open>addMessage\<close> counts every message it appends and never lowers
  \<open>totalMessages\<close> when it evicts: on an active conversation that starts with
  \<open>totalMessages = length messages \<le> MAX_HISTORY_ITEMS\<close>, after any sequence of calls
  \<open>totalMessages\<close> is the starting count plus the number of calls, and the length of the
  message list is the smaller of \<open>totalMessages\<close> and the cap. The two are equal until the
  cap first evicts a message, and \<open>totalMessages\<close> is the larger from then on.
\<close>

theorem totalMessages_counts_appends:
  assumes "currentConversationSubject s = Some c"
    and "totalMessages (metadata c) = int (length (messages c))"
    and "length (messages c) \<le> MAX_HISTORY_ITEMS e"
  shows "\<exists>md msgs. active_metadata (addMessages e ms s) = Some md
      \<and> active_messages (addMessages e ms s) = Some msgs
      \<and> totalMessages md = int (length (messages c)) + int (length ms)
      \<and> int (length msgs) = min (totalMessages md) (int (MAX_HISTORY_ITEMS e))"
proof -
  let ?c' = "foldl (\<lambda>c m. pushMessage e m c) c ms"
  from addMessages_active [OF assms(1), of e ms] obtain s' where
    run: "addMessages e ms s = Some s'"
    and cur: "currentConversationSubject s' = Some ?c'"
    by blast
  have total: "totalMessages (metadata ?c') = int (length (messages c)) + int (length ms)"
    using assms(2) by (simp add: foldl_pushMessage_totalMessages)
  have len: "int (length (messages ?c')) = min (totalMessages (metadata ?c')) (int (MAX_HISTORY_ITEMS e))"
  proof (cases "ms = []")
    case True
    then show ?thesis using assms(2,3) by simp
  next
    case False
    then show ?thesis
      unfolding total by (simp add: foldl_pushMessage_messages)
  qed
  show ?thesis
    using run cur total len by (simp add: active_metadata_def active_messages_def)
qed

theorem totalMessages_counts_appends_witness:
  "currentConversationSubject demo_active = Some demo_conversation
   \<and> totalMessages (metadata demo_conversation) = int (length (messages demo_conversation))
   \<and> length (messages demo_conversation) \<le> MAX_HISTORY_ITEMS demo_env
   \<and> map_option totalMessages (active_metadata (addMessages demo_env
        [demo_message ''m1'' USER ''one'', demo_message ''m2'' AI ''two'',
         demo_message ''m3'' USER ''three''] demo_active)) = Some 4
   \<and> map_option length (active_messages (addMessages demo_env
        [demo_message ''m1'' USER ''one'', demo_message ''m2'' AI ''two'',
         demo_message ''m3'' USER ''three''] demo_active)) = Some 2"
proof -
  have h1: "currentConversationSubject demo_active = Some demo_conversation"
    by (simp add: demo_active_def)
  have h2: "totalMessages (metadata demo_conversation) = int (length (messages demo_conversation))"
    by (simp add: demo_conversation_def)
  have h3: "length (messages demo_conversation) \<le> MAX_HISTORY_ITEMS demo_env"
    by (simp add: demo_conversation_def demo_env_def)
  from totalMessages_counts_appends [OF h1 h2 h3,
      of "[demo_message ''m1'' USER ''one'', demo_message ''m2'' AI ''two'',
           demo_message ''m3'' USER ''three'']"]
  obtain md msgs where
    "active_metadata (addMessages demo_env
        [demo_message ''m1'' USER ''one'', demo_message ''m2'' AI ''two'',
         demo_message ''m3'' USER ''three''] demo_active) = Some md"
    "active_messages (addMessages demo_env
        [demo_message ''m1'' USER ''one'', demo_message ''m2'' AI ''two'',
         demo_message ''m3'' USER ''three''] demo_active) = Some msgs"
    "totalMessages md = 4" "length msgs = 2"
    by (auto simp: demo_env_def demo_conversation_def)
  then show ?thesis
    using h1 h2 h3 by simp
qed

text \<open>
  The equality of C1 as first stated fails once the cap evicts: with a cap of two, the third
  \<^verbatim>\<open>addMessage\<close> on a new conversation leaves \<open>totalMessages = 3\<close> and two messages.
\<close>

theorem totalMessages_exceeds_length:
  "map_option totalMessages (active_metadata (addMessages demo_env
      [demo_message ''m1'' USER ''one'', demo_message ''m2'' AI ''two'',
       demo_message ''m3'' USER ''three'']
      (snd (createNewConversation demo_env None empty_store)))) = Some 3
   \<and> map_option length (active_messages (addMessages demo_env
      [demo_message ''m1'' USER ''one'', demo_message ''m2'' AI ''two'',
       demo_message ''m3'' USER ''three'']
      (snd (createNewConversation demo_env None empty_store)))) = Some 2"
proof -
  let ?s = "snd (createNewConversation demo_env None empty_store)"
  let ?ms = "[demo_message ''m1'' USER ''one'', demo_message ''m2'' AI ''two'',
              demo_message ''m3'' USER ''three'']"
  obtain md0 where cur: "currentConversationSubject ?s = Some \<lparr>messages = [], metadata = md0\<rparr>"
    and zero: "totalMessages md0 = 0"
    using createNewConversation_result [of demo_env None empty_store] by blast
  let ?c' = "foldl (\<lambda>c m. pushMessage demo_env m c) \<lparr>messages = [], metadata = md0\<rparr> ?ms"
  from addMessages_active [OF cur, of demo_env ?ms] obtain s' where
    run: "addMessages demo_env ?ms ?s = Some s'"
    and cur': "currentConversationSubject s' = Some ?c'"
    by blast
  have "totalMessages (metadata ?c') = 3"
    using zero foldl_pushMessage_totalMessages [of demo_env "\<lparr>messages = [], metadata = md0\<rparr>" ?ms]
    by simp
  moreover have "length (messages ?c') = 2"
    using foldl_pushMessage_messages [of ?ms demo_env "\<lparr>messages = [], metadata = md0\<rparr>"]
    by (simp add: demo_env_def)
  ultimately show ?thesis
    using run cur' by (simp add: active_metadata_def active_messages_def)
qed

section \<open>Clearing the active conversation\<close>

lemma saveConversation_written:
  assumes "setItem_ok e (localStorage s) (conversation_key e (id_conv (metadata c)))
             (JSON_stringify (json_of_ChatHistory (fst (saveConversation e c s))))"
    and "conversation_key e (id_conv (metadata c)) \<noteq> index_key e"
  shows "localStorage (snd (saveConversation e c s)) (conversation_key e (id_conv (metadata c)))
         = Some (JSON_stringify (json_of_ChatHistory (fst (saveConversation e c s))))"
proof -
  have ok: "setItem_ok e (localStorage s) (conversation_key e (id_conv (metadata c)))
      (Json (json_of_ChatHistory (c\<lparr>metadata := (metadata c)\<lparr>updatedAt := Date_now e (clock s)\<rparr>\<rparr>)))"
    using assms(1) by (simp add: saveConversation_result JSON_stringify_def)
  show ?thesis
  proof (cases e c s rule: saveConversation_cases)
    case refused
    then show ?thesis using ok by simp
  next
    case (scan_threw error)
    then show ?thesis by (simp add: JSON_stringify_def)
  next
    case (saved s3)
    then show ?thesis
      using updateConversationInIndex_storage
        [OF saved(2), of "conversation_key e (id_conv (metadata c))"] assms(2)
      by (auto simp: JSON_stringify_def)
  qed
qed

lemma saveConversation_refused:
  assumes "\<not> setItem_ok e (localStorage s) (conversation_key e (id_conv (metadata c)))
             (JSON_stringify (json_of_ChatHistory (fst (saveConversation e c s))))"
  shows "localStorage (snd (saveConversation e c s)) = localStorage s"
    and "storageErrorSubject (snd (saveConversation e c s))
         = Some (''Failed to save conversation'', QuotaExceededError)"
proof -
  have no: "\<not> setItem_ok e (localStorage s) (conversation_key e (id_conv (metadata c)))
      (Json (json_of_ChatHistory (c\<lparr>metadata := (metadata c)\<lparr>updatedAt := Date_now e (clock s)\<rparr>\<rparr>)))"
    using assms by (simp add: saveConversation_result JSON_stringify_def)
  show "localStorage (snd (saveConversation e c s)) = localStorage s"
    using no by (cases e c s rule: saveConversation_cases) simp_all
  show "storageErrorSubject (snd (saveConversation e c s))
         = Some (''Failed to save conversation'', QuotaExceededError)"
    using no by (cases e c s rule: saveConversation_cases) simp_all
qed

lemma clearCurrentConversation_result:
  assumes "currentConversationSubject s = Some c"
  shows "clearCurrentConversation e s
     = (True,
        (snd (saveConversation e
               \<lparr>messages = [],
                metadata = (metadata c)
                   \<lparr>totalMessages := 0, userMessageCount := 0, aiMessageCount := 0,
                    totalTokensUsed := Some 0, updatedAt := Date_now e (clock s)\<rparr>\<rparr>
               (s\<lparr>clock := Suc (clock s),
                  currentConversationSubject := Some
                    \<lparr>messages = [],
                     metadata = (metadata c)
                       \<lparr>totalMessages := 0, userMessageCount := 0, aiMessageCount := 0,
                        totalTokensUsed := Some 0, updatedAt := Date_now e (clock s)\<rparr>\<rparr>\<rparr>)))
          \<lparr>currentConversationSubject := Some
             \<lparr>messages = [],
              metadata = (metadata c)
                \<lparr>totalMessages := 0, userMessageCount := 0, aiMessageCount := 0,
                 totalTokensUsed := Some 0, updatedAt := Date_now e (Suc (clock s))\<rparr>\<rparr>\<rparr>)"
  using assms
  by (simp add: clearCurrentConversation_def now_def Let_def split_beta saveConversation_result)

text \<open>
  C8. On an active conversation \<^verbatim>\<open>clearCurrentConversation\<close> returns true and leaves
  active a conversation with no messages and \<open>totalMessages\<close>, \<open>userMessageCount\<close>,
  \<open>aiMessageCount\<close> and \<open>totalTokensUsed\<close> all zero, with the identifier and \<open>createdAt\<close> it
  had. It writes that conversation to the storage at once: nothing is handed to the
  debounced save, and when the storage accepts the write the cleared conversation is what
  is stored under the conversation's key (a key distinct from the key of the index); when
  the storage refuses the write, the storage is unchanged and the failure is reported.
\<close>

theorem clear_resets_and_persists:
  assumes "currentConversationSubject s = Some c"
  shows "\<exists>s' md.
      clearCurrentConversation e s = (True, s')
      \<and> currentConversationSubject s' = Some \<lparr>messages = [], metadata = md\<rparr>
      \<and> totalMessages md = 0 \<and> userMessageCount md = 0 \<and> aiMessageCount md = 0
      \<and> totalTokensUsed md = Some 0
      \<and> id_conv md = id_conv (metadata c) \<and> createdAt md = createdAt (metadata c)
      \<and> saveSubject s' = saveSubject s
      \<and> (if setItem_ok e (localStorage s) (conversation_key e (id_conv md))
               (JSON_stringify (json_of_ChatHistory \<lparr>messages = [], metadata = md\<rparr>))
          then conversation_key e (id_conv md) = index_key e
               \<or> localStorage s' (conversation_key e (id_conv md))
                   = Some (JSON_stringify (json_of_ChatHistory \<lparr>messages = [], metadata = md\<rparr>))
          else localStorage s' = localStorage s
               \<and> storageErrorSubject s'
                   = Some (''Failed to save conversation'', QuotaExceededError))"
proof -
  let ?cl = "\<lparr>messages = [],
              metadata = (metadata c)
                \<lparr>totalMessages := 0, userMessageCount := 0, aiMessageCount := 0,
                 totalTokensUsed := Some 0, updatedAt := Date_now e (clock s)\<rparr>\<rparr>"
  let ?s2 = "s\<lparr>clock := Suc (clock s), currentConversationSubject := Some ?cl\<rparr>"
  let ?md = "(metadata c)
                \<lparr>totalMessages := 0, userMessageCount := 0, aiMessageCount := 0,
                 totalTokensUsed := Some 0, updatedAt := Date_now e (Suc (clock s))\<rparr>"
  let ?s' = "(snd (saveConversation e ?cl ?s2))
               \<lparr>currentConversationSubject := Some \<lparr>messages = [], metadata = ?md\<rparr>\<rparr>"
  have res: "clearCurrentConversation e s = (True, ?s')"
    using assms by (rule clearCurrentConversation_result)
  have saved: "fst (saveConversation e ?cl ?s2) = \<lparr>messages = [], metadata = ?md\<rparr>"
    by (simp add: saveConversation_result)
  have key: "id_conv (metadata ?cl) = id_conv ?md" by simp
  have persists: "conversation_key e (id_conv ?md) = index_key e
      \<or> localStorage ?s' (conversation_key e (id_conv ?md))
          = Some (JSON_stringify (json_of_ChatHistory \<lparr>messages = [], metadata = ?md\<rparr>))"
    if "setItem_ok e (localStorage s) (conversation_key e (id_conv ?md))
          (JSON_stringify (json_of_ChatHistory \<lparr>messages = [], metadata = ?md\<rparr>))"
  proof (cases "conversation_key e (id_conv ?md) = index_key e")
    case True
    then show ?thesis by simp
  next
    case False
    have "localStorage (snd (saveConversation e ?cl ?s2)) (conversation_key e (id_conv (metadata ?cl)))
        = Some (JSON_stringify (json_of_ChatHistory (fst (saveConversation e ?cl ?s2))))"
      by (rule saveConversation_written) (use that False in \<open>simp_all add: saved\<close>)
    then show ?thesis by (simp add: saved)
  qed
  have refused: "localStorage ?s' = localStorage s
      \<and> storageErrorSubject ?s' = Some (''Failed to save conversation'', QuotaExceededError)"
    if "\<not> setItem_ok e (localStorage s) (conversation_key e (id_conv ?md))
          (JSON_stringify (json_of_ChatHistory \<lparr>messages = [], metadata = ?md\<rparr>))"
  proof -
    have no: "\<not> setItem_ok e (localStorage ?s2) (conversation_key e (id_conv (metadata ?cl)))
        (JSON_stringify (json_of_ChatHistory (fst (saveConversation e ?cl ?s2))))"
      using that by (simp add: saved)
    show ?thesis
      using saveConversation_refused [OF no] by simp
  qed
  show ?thesis
    apply (rule exI [of _ ?s'])
    apply (rule exI [of _ ?md])
    using res persists refused
    by (simp add: saveConversation_frame)
qed

theorem clear_resets_and_persists_witness:
  "currentConversationSubject demo_active = Some demo_conversation
   \<and> fst (clearCurrentConversation demo_env demo_active) = True
   \<and> active_messages (Some (snd (clearCurrentConversation demo_env demo_active))) = Some []
   \<and> map_option totalMessages
        (active_metadata (Some (snd (clearCurrentConversation demo_env demo_active)))) = Some 0
   \<and> map_option id_conv
        (active_metadata (Some (snd (clearCurrentConversation demo_env demo_active))))
       = Some ''conv-0''
   \<and> map_option createdAt
        (active_metadata (Some (snd (clearCurrentConversation demo_env demo_active))))
       = Some 4000
   \<and> saveSubject (snd (clearCurrentConversation demo_env demo_active)) = []
   \<and> localStorage (snd (clearCurrentConversation demo_env demo_active))
        (conversation_key demo_env ''conv-0'')
       = map_option (JSON_stringify \<circ> json_of_ChatHistory)
           (currentConversationSubject (snd (clearCurrentConversation demo_env demo_active)))"
proof -
  have h: "currentConversationSubject demo_active = Some demo_conversation"
    by (simp add: demo_active_def)
  have key: "conversation_key demo_env ''conv-0'' \<noteq> index_key demo_env"
    by (simp add: conversation_key_def index_key_def)
  from clear_resets_and_persists [OF h, of demo_env] obtain s' md where
    r: "clearCurrentConversation demo_env demo_active = (True, s')"
    "currentConversationSubject s' = Some \<lparr>messages = [], metadata = md\<rparr>"
    "totalMessages md = 0"
    "id_conv md = id_conv (metadata demo_conversation)"
    "createdAt md = createdAt (metadata demo_conversation)"
    "saveSubject s' = saveSubject demo_active"
    "if setItem_ok demo_env (localStorage demo_active) (conversation_key demo_env (id_conv md))
          (JSON_stringify (json_of_ChatHistory \<lparr>messages = [], metadata = md\<rparr>))
     then conversation_key demo_env (id_conv md) = index_key demo_env
          \<or> localStorage s' (conversation_key demo_env (id_conv md))
              = Some (JSON_stringify (json_of_ChatHistory \<lparr>messages = [], metadata = md\<rparr>))
     else localStorage s' = localStorage demo_active
          \<and> storageErrorSubject s' = Some (''Failed to save conversation'', QuotaExceededError)"
    by blast
  have id: "id_conv md = ''conv-0''"
    using r(4) by (simp add: demo_conversation_def)
  have "setItem_ok demo_env (localStorage demo_active) (conversation_key demo_env (id_conv md))
          (JSON_stringify (json_of_ChatHistory \<lparr>messages = [], metadata = md\<rparr>))"
    by (simp add: demo_env_def)
  with r(7) key have "localStorage s' (conversation_key demo_env ''conv-0'')
      = Some (JSON_stringify (json_of_ChatHistory \<lparr>messages = [], metadata = md\<rparr>))"
    by (simp add: id)
  then show ?thesis
    using h r(1-3,5,6) id
    by (simp add: active_messages_def active_metadata_def demo_conversation_def demo_active_def)
qed

section \<open>The invariant of the counters\<close>

lemma pushMessage_counters_ok:
  "counters_ok (metadata c) \<Longrightarrow> counters_ok (metadata (pushMessage e m c))"
  using pushMessage_counts [of e m c] pushMessage_totalMessages [of e m c]
  by (simp add: counters_ok_def)

lemma mutate_counters_ok:
  assumes "store_counters_ok e s"
  shows "\<exists>s'. mutate e m s = Some s' \<and> store_counters_ok e s'"
proof (cases m)
  case (CreateNewConversation t)
  obtain md where "currentConversationSubject (snd (createNewConversation e t s))
        = Some \<lparr>messages = [], metadata = md\<rparr>"
    "totalMessages md = 0" "userMessageCount md = 0" "aiMessageCount md = 0"
    using createNewConversation_result [of e t s] by blast
  then show ?thesis
    using CreateNewConversation by (simp add: store_counters_ok_def counters_ok_def)
next
  case (AddMessage msg)
  show ?thesis
  proof (cases "currentConversationSubject s")
    case None
    then have "next_uuid_unused e s"
      using assms by (simp add: store_counters_ok_def)
    from addMessage_first [OF None this, of msg] obtain s' md where
      "addMessage e msg s = Some s'"
      "currentConversationSubject s' = Some (pushMessage e msg \<lparr>messages = [], metadata = md\<rparr>)"
      "totalMessages md = 0" "userMessageCount md = 0" "aiMessageCount md = 0"
      by blast
    moreover from this have "counters_ok (metadata (pushMessage e msg \<lparr>messages = [], metadata = md\<rparr>))"
      by (intro pushMessage_counters_ok) (simp add: counters_ok_def)
    ultimately show ?thesis
      using AddMessage by (simp add: store_counters_ok_def)
  next
    case (Some c)
    then have "counters_ok (metadata c)"
      using assms by (simp add: store_counters_ok_def)
    then have "counters_ok (metadata (pushMessage e msg c))"
      by (rule pushMessage_counters_ok)
    then show ?thesis
      using AddMessage addMessage_active [OF Some, of e msg]
      by (simp add: store_counters_ok_def)
  qed
next
  case ClearCurrentConversation
  show ?thesis
  proof (cases "currentConversationSubject s")
    case None
    then show ?thesis
      using ClearCurrentConversation assms by (simp add: clearCurrentConversation_def)
  next
    case (Some c)
    show ?thesis
      using ClearCurrentConversation clearCurrentConversation_result [OF Some, of e]
      by (simp add: store_counters_ok_def counters_ok_def)
  qed
qed

text \<open>
  C7. Starting from a state in which the active conversation satisfies
  \<open>userMessageCount + aiMessageCount \<le> totalMessages\<close> (or in which no conversation is
  active yet and the next identifier is new to the storage, as on an empty store), every
  sequence of \<^verbatim>\<open>createNewConversation\<close>, \<^verbatim>\<open>addMessage\<close> and \<^verbatim>\<open>clearCurrentConversation\<close> calls
  runs to the end and leaves a state in which the active conversation satisfies the same
  inequality. A prefix of a sequence is a sequence, so this holds after every call.
  \<^verbatim>\<open>addMessage\<close> counts a message of the system sender in \<open>totalMessages\<close> only.
\<close>

theorem counters_invariant:
  assumes "store_counters_ok e s"
  shows "\<exists>s'. mutations e ms s = Some s'
      \<and> store_counters_ok e s'
      \<and> (case active_metadata (Some s') of
            None \<Rightarrow> True
          | Some md \<Rightarrow> userMessageCount md + aiMessageCount md \<le> totalMessages md)"
  using assms
proof (induction ms arbitrary: s)
  case Nil
  then show ?case
    by (auto simp: store_counters_ok_def counters_ok_def active_metadata_def
        split: option.splits)
next
  case (Cons m ms)
  from mutate_counters_ok [OF Cons.prems, of m] obtain s1 where
    "mutate e m s = Some s1" "store_counters_ok e s1"
    by blast
  then show ?case
    using Cons.IH [of s1] by simp
qed

theorem counters_invariant_witness:
  "store_counters_ok demo_env empty_store
   \<and> (\<exists>s'. mutations demo_env
          [CreateNewConversation None,
           AddMessage (demo_message ''m1'' USER ''one''),
           AddMessage (demo_message ''m2'' AI ''two''),
           AddMessage (demo_message ''m3'' SYSTEM ''three''),
           ClearCurrentConversation,
           AddMessage (demo_message ''m4'' SYSTEM ''four'')] empty_store = Some s'
        \<and> store_counters_ok demo_env s'
        \<and> (case active_metadata (Some s') of
              None \<Rightarrow> True
            | Some md \<Rightarrow> userMessageCount md + aiMessageCount md \<le> totalMessages md))"
proof -
  have h: "store_counters_ok demo_env empty_store"
    by (simp add: store_counters_ok_def next_uuid_unused_def empty_store_def)
  show ?thesis
    using counters_invariant [OF h] h by blast
qed

section \<open>Loading a conversation\<close>

lemma get_prop_field: "get_prop v k = Inr r \<Longrightarrow> field v k = r"
  by (simp add: field_def)

lemma validateMessage_rejects:
  assumes "\<not> truthy (field (Some m) ''id'') \<or> \<not> truthy (field (Some m) ''sender'')
      \<or> \<not> truthy (field (Some m) ''content'') \<or> \<not> truthy (field (Some m) ''timestamp'')"
  shows "\<exists>error. validateMessage m = Inl error"
proof (cases "get_prop (Some m) ''id''")
  case (Inl error)
  then show ?thesis by (simp add: validateMessage_def)
next
  case (Inr r)
  then have "field (Some m) ''id'' = r" by (rule get_prop_field)
  then show ?thesis
    using assms Inr by (auto simp: validateMessage_def)
qed

lemma validateMessages_rejects:
  assumes "m \<in> set ms" and "\<exists>error. validateMessage m = Inl error"
  shows "\<exists>error. validateMessages ms = Inl error"
  using assms
proof (induction ms)
  case Nil
  then show ?case by simp
next
  case (Cons x xs)
  then show ?case
    by (cases "validateMessage x") auto
qed

lemma validateConversation_rejects:
  assumes "\<not> truthy (field (field (Some v) ''metadata'') ''id'')
      \<or> \<not> typeof_number (field (field (Some v) ''metadata'') ''createdAt'')
      \<or> \<not> typeof_number (field (field (Some v) ''metadata'') ''updatedAt'')
      \<or> \<not> Array_isArray (field (Some v) ''messages'')
      \<or> (\<exists>ms m. field (Some v) ''messages'' = Some (JArr ms) \<and> m \<in> set ms
            \<and> (\<not> truthy (field (Some m) ''id'') \<or> \<not> truthy (field (Some m) ''sender'')
                \<or> \<not> truthy (field (Some m) ''content'')
                \<or> \<not> truthy (field (Some m) ''timestamp'')))"
  shows "\<exists>error. validateConversation v = Inl error"
proof (cases "field (Some v) ''messages''")
  case None
  then show ?thesis by (simp add: validateConversation_def Let_def)
next
  case (Some msgs)
  show ?thesis
  proof (cases msgs)
    case (JArr ms)
    show ?thesis
    proof (cases "\<exists>m\<in>set ms. \<not> truthy (field (Some m) ''id'') \<or> \<not> truthy (field (Some m) ''sender'')
                \<or> \<not> truthy (field (Some m) ''content'')
                \<or> \<not> truthy (field (Some m) ''timestamp'')")
      case True
      then obtain m where "m \<in> set ms" "\<exists>error. validateMessage m = Inl error"
        using validateMessage_rejects by blast
      then obtain error where "validateMessages ms = Inl error"
        using validateMessages_rejects by blast
      then show ?thesis
        using Some JArr by (simp add: validateConversation_def Let_def)
    next
      case False
      then have "\<not> truthy (field (field (Some v) ''metadata'') ''id'')
          \<or> \<not> typeof_number (field (field (Some v) ''metadata'') ''createdAt'')
          \<or> \<not> typeof_number (field (field (Some v) ''metadata'') ''updatedAt'')"
        using assms Some JArr by (auto simp: Array_isArray_def)
      then show ?thesis
        using Some JArr by (auto simp: validateConversation_def Let_def)
    qed
  qed (use Some in \<open>simp_all add: validateConversation_def Let_def\<close>)
qed

lemma loadConversation_rejected:
  assumes "case localStorage s (conversation_key e i) of
       None \<Rightarrow> True
     | Some (NotJson t) \<Rightarrow> True
     | Some (Json v) \<Rightarrow> (\<exists>error. validateConversation v = Inl error)"
  shows "\<exists>error. loadConversation e i s
      = Some (False, s\<lparr>storageErrorSubject := Some (''Failed to load conversation '' @ i, error)\<rparr>)"
proof (cases "localStorage s (conversation_key e i)")
  case None
  then show ?thesis
    by (auto simp: loadConversation_def Let_def handleStorageError_def)
next
  case (Some stored)
  show ?thesis
  proof (cases stored)
    case (NotJson t)
    then show ?thesis
      using Some by (auto simp: loadConversation_def Let_def handleStorageError_def)
  next
    case (Json v)
    then obtain error where "validateConversation v = Inl error"
      using assms Some by auto
    then show ?thesis
      using Some Json by (auto simp: loadConversation_def Let_def handleStorageError_def)
  qed
qed

text \<open>
  The one failure that comes after the conversation has been made active: the stored
  conversation is valid, and the scan of the index in \<^verbatim>\<open>updateConversationTimestamp\<close>
  meets a \<^verbatim>\<open>null\<close> entry. The call returns false and the loaded conversation is active.
\<close>

lemma loadConversation_scan_throws:
  assumes "localStorage s (conversation_key e i) = Some (Json (json_of_ChatHistory c))"
    and "validateConversation (json_of_ChatHistory c) = Inr ()"
    and "findIndex_id i (conversationsSubject s) = Inl error"
  shows "loadConversation e i s
     = Some (False,
             s\<lparr>activeConversationId := Some i,
               currentConversationSubject := Some c,
               storageErrorSubject := Some (''Failed to load conversation '' @ i, error)\<rparr>)"
  using assms
  by (simp add: loadConversation_def Let_def as_ChatHistory_json updateConversationTimestamp_def
      handleStorageError_def)

text \<open>
  C5. \<^verbatim>\<open>loadConversation\<close> fails when nothing is stored under the identifier, when the
  stored text is not JSON, and when the stored value does not pass validation: its metadata
  has no truthy \<open>id\<close>, \<open>createdAt\<close> or \<open>updatedAt\<close> is not a number, \<open>messages\<close> is not an
  array, or some message lacks a truthy \<open>id\<close>, \<open>sender\<close>, \<open>content\<close> or \<open>timestamp\<close>. In
  each of these cases it returns false with an error on the storage error channel and
  nothing else changed: the active conversation and its published value, the active
  identifier, the index and the storage are as before.
\<close>

theorem loadConversation_failure:
  assumes "case localStorage s (conversation_key e i) of
       None \<Rightarrow> True
     | Some (NotJson t) \<Rightarrow> True
     | Some (Json v) \<Rightarrow>
         \<not> truthy (field (field (Some v) ''metadata'') ''id'')
         \<or> \<not> typeof_number (field (field (Some v) ''metadata'') ''createdAt'')
         \<or> \<not> typeof_number (field (field (Some v) ''metadata'') ''updatedAt'')
         \<or> \<not> Array_isArray (field (Some v) ''messages'')
         \<or> (\<exists>ms m. field (Some v) ''messages'' = Some (JArr ms) \<and> m \<in> set ms
               \<and> (\<not> truthy (field (Some m) ''id'') \<or> \<not> truthy (field (Some m) ''sender'')
                   \<or> \<not> truthy (field (Some m) ''content'')
                   \<or> \<not> truthy (field (Some m) ''timestamp'')))"
  shows "\<exists>s'. loadConversation e i s = Some (False, s')
      \<and> (\<exists>error. storageErrorSubject s' = Some (''Failed to load conversation '' @ i, error))
      \<and> currentConversationSubject s' = currentConversationSubject s
      \<and> activeConversationId s' = activeConversationId s
      \<and> conversationsSubject s' = conversationsSubject s
      \<and> localStorage s' = localStorage s"
proof -
  have "case localStorage s (conversation_key e i) of
       None \<Rightarrow> True
     | Some (NotJson t) \<Rightarrow> True
     | Some (Json v) \<Rightarrow> (\<exists>error. validateConversation v = Inl error)"
  proof (cases "localStorage s (conversation_key e i)")
    case None
    then show ?thesis by simp
  next
    case (Some stored)
    show ?thesis
    proof (cases stored)
      case (NotJson t)
      then show ?thesis using Some by simp
    next
      case (Json v)
      then show ?thesis
        using assms Some validateConversation_rejects [of v] by auto
    qed
  qed
  from loadConversation_rejected [OF this] obtain error where
    "loadConversation e i s
      = Some (False, s\<lparr>storageErrorSubject := Some (''Failed to load conversation '' @ i, error)\<rparr>)"
    by blast
  then show ?thesis by simp
qed

theorem loadConversation_failure_witness:
  "localStorage broken_store (conversation_key demo_env ''conv-9'') = Some (Json broken_conversation)
   \<and> field (Some broken_conversation) ''messages'' = Some (JArr [broken_message])
   \<and> \<not> truthy (field (Some broken_message) ''content'')
   \<and> (\<exists>s'. loadConversation demo_env ''conv-9'' broken_store = Some (False, s')
         \<and> (\<exists>error. storageErrorSubject s' = Some (''Failed to load conversation conv-9'', error))
         \<and> currentConversationSubject s' = Some demo_conversation
         \<and> activeConversationId s' = Some ''conv-0'')"
proof -
  have stored: "localStorage broken_store (conversation_key demo_env ''conv-9'')
      = Some (Json broken_conversation)"
    by (simp add: broken_store_def)
  have msgs: "field (Some broken_conversation) ''messages'' = Some (JArr [broken_message])"
    by (simp add: broken_conversation_def field_def)
  have bad: "\<not> truthy (field (Some broken_message) ''content'')"
    by (simp add: broken_message_def field_def)
  have cause: "case localStorage broken_store (conversation_key demo_env ''conv-9'') of
       None \<Rightarrow> True
     | Some (NotJson t) \<Rightarrow> True
     | Some (Json v) \<Rightarrow>
         \<not> truthy (field (field (Some v) ''metadata'') ''id'')
         \<or> \<not> typeof_number (field (field (Some v) ''metadata'') ''createdAt'')
         \<or> \<not> typeof_number (field (field (Some v) ''metadata'') ''updatedAt'')
         \<or> \<not> Array_isArray (field (Some v) ''messages'')
         \<or> (\<exists>ms m. field (Some v) ''messages'' = Some (JArr ms) \<and> m \<in> set ms
               \<and> (\<not> truthy (field (Some m) ''id'') \<or> \<not> truthy (field (Some m) ''sender'')
                   \<or> \<not> truthy (field (Some m) ''content'')
                   \<or> \<not> truthy (field (Some m) ''timestamp'')))"
    using msgs bad by (auto simp: stored)
  from loadConversation_failure [OF cause]
  obtain s' where "loadConversation demo_env ''conv-9'' broken_store = Some (False, s')"
    "\<exists>error. storageErrorSubject s' = Some (''Failed to load conversation '' @ ''conv-9'', error)"
    "currentConversationSubject s' = currentConversationSubject broken_store"
    "activeConversationId s' = activeConversationId broken_store"
    by blast
  then show ?thesis
    using stored msgs bad
    by (auto simp: broken_store_def demo_active_def)
qed

section \<open>Export followed by import\<close>

lemma field_json_of_ChatHistory:
  "field (Some (json_of_ChatHistory c)) ''metadata''
     = Some (json_of_ConversationMetadata (metadata c))"
  "field (Some (json_of_ChatHistory c)) ''messages''
     = Some (JArr (map json_of_ChatMessage (messages c)))"
  by (simp_all add: json_of_ChatHistory_def field_def)

lemma field_json_of_ConversationMetadata:
  "field (Some (json_of_ConversationMetadata m)) ''id'' = Some (JStr (id_conv m))"
  "field (Some (json_of_ConversationMetadata m)) ''createdAt'' = Some (JNum (createdAt m))"
  "field (Some (json_of_ConversationMetadata m)) ''updatedAt'' = Some (JNum (updatedAt m))"
  by (simp_all add: json_of_ConversationMetadata_def field_def map_of_props
      del: map_of_append)

lemma truthy_sender: "truthy (Some (json_of_MessageSender who))"
  by (cases who) simp_all

lemma validateMessage_json:
  "validateMessage (json_of_ChatMessage m)
   = (if id_msg m \<noteq> [] \<and> content m \<noteq> [] \<and> timestamp m \<noteq> 0 then Inr ()
      else Inl (Error ''Invalid message format: missing required properties''))"
  by (simp add: validateMessage_def json_of_ChatMessage_def field_def truthy_sender)

lemma validateMessages_json:
  "(validateMessages (map json_of_ChatMessage ms) = Inr ())
   = (\<forall>m\<in>set ms. id_msg m \<noteq> [] \<and> content m \<noteq> [] \<and> timestamp m \<noteq> 0)"
  by (induction ms) (auto simp: validateMessage_json)

lemma validateConversation_json:
  "(validateConversation (json_of_ChatHistory c) = Inr ())
   = (id_conv (metadata c) \<noteq> []
      \<and> (\<forall>m\<in>set (messages c). id_msg m \<noteq> [] \<and> content m \<noteq> [] \<and> timestamp m \<noteq> 0))"
proof -
  have md: "truthy (Some (json_of_ConversationMetadata (metadata c)))"
    by (simp add: json_of_ConversationMetadata_def)
  have obj: "truthy (Some (json_of_ChatHistory c))"
    by (simp add: json_of_ChatHistory_def)
  show ?thesis
    using validateMessages_json [of "messages c"]
    by (auto simp: validateConversation_def Let_def field_json_of_ChatHistory
        field_json_of_ConversationMetadata typeof_number_def md obj)
qed

lemma export_then_import_result:
  assumes stored: "localStorage s (conversation_key e i) = Some (Json (json_of_ChatHistory c))"
    and i: "i \<noteq> []"
    and idc: "id_conv (metadata c) \<noteq> []"
    and msgs: "\<forall>m\<in>set (messages c). id_msg m \<noteq> [] \<and> content m \<noteq> [] \<and> timestamp m \<noteq> 0"
    and scan: "some_id (id_conv (metadata c)) (conversationsSubject s) = Inr known"
  shows "\<exists>s'. export_then_import e i replace s
        = Some (Some (id_conv (imported_metadata e replace s (metadata c))), s')
      \<and> currentConversationSubject s'
          = Some \<lparr>messages = messages c, metadata = imported_metadata e replace s (metadata c)\<rparr>
      \<and> activeConversationId s' = Some (id_conv (imported_metadata e replace s (metadata c)))"
proof -
  have exp: "exportConversation e (Some i) s = (Json (json_of_ChatHistory c), s)"
    using stored i by (simp add: exportConversation_def Let_def)
  have valid: "validateConversation (json_of_ChatHistory c) = Inr ()"
    using idc msgs by (simp add: validateConversation_json)
  show ?thesis
  proof (cases "known \<and> \<not> replace")
    case True
    let ?c1 = "c\<lparr>metadata := (metadata c)
        \<lparr>id_conv := uuidv4 e (uuids s),
         title := Some ((case title (metadata c) of
                           Some ti \<Rightarrow> if ti \<noteq> [] then ti else ''Imported Conversation''
                         | None \<Rightarrow> ''Imported Conversation'') @ '' (Imported)'')\<rparr>\<rparr>"
    let ?s1 = "s\<lparr>uuids := Suc (uuids s)\<rparr>"
    let ?c2 = "fst (saveConversation e ?c1 ?s1)"
    let ?s2 = "snd (saveConversation e ?c1 ?s1)"
    have imp: "importConversation e (Json (json_of_ChatHistory c)) replace s
        = Some (Some (id_conv (metadata ?c2)),
                ?s2\<lparr>activeConversationId := Some (id_conv (metadata ?c2)),
                     currentConversationSubject := Some ?c2\<rparr>)"
      using True valid scan
      by (simp add: importConversation_def as_ChatHistory_json Let_def fresh_uuid_def split_beta)
    have c2: "?c2 = \<lparr>messages = messages c, metadata = imported_metadata e replace s (metadata c)\<rparr>"
      using True scan by (simp add: saveConversation_result imported_metadata_def)
    show ?thesis
      unfolding export_then_import_def exp
      by (simp add: imp c2)
  next
    case False
    then have cond: "(some_id (id_conv (metadata c)) (conversationsSubject s) = Inr True \<and> \<not> replace)
        = False"
      using scan by auto
    let ?c2 = "fst (saveConversation e c s)"
    let ?s2 = "snd (saveConversation e c s)"
    have imp: "importConversation e (Json (json_of_ChatHistory c)) replace s
        = Some (Some (id_conv (metadata ?c2)),
                ?s2\<lparr>activeConversationId := Some (id_conv (metadata ?c2)),
                     currentConversationSubject := Some ?c2\<rparr>)"
      using valid scan
      by (simp add: importConversation_def as_ChatHistory_json Let_def split_beta False)
    have c2: "?c2 = \<lparr>messages = messages c, metadata = imported_metadata e replace s (metadata c)\<rparr>"
      by (simp add: saveConversation_result imported_metadata_def cond)
    show ?thesis
      unfolding export_then_import_def exp
      by (simp add: imp c2)
  qed
qed

lemma export_then_import_scan_throws:
  assumes stored: "localStorage s (conversation_key e i) = Some (Json (json_of_ChatHistory c))"
    and i: "i \<noteq> []"
    and idc: "id_conv (metadata c) \<noteq> []"
    and msgs: "\<forall>m\<in>set (messages c). id_msg m \<noteq> [] \<and> content m \<noteq> [] \<and> timestamp m \<noteq> 0"
    and scan: "some_id (id_conv (metadata c)) (conversationsSubject s) = Inl error"
  shows "export_then_import e i replace s
     = Some (None, s\<lparr>storageErrorSubject := Some (''Failed to import conversation'', error)\<rparr>)"
proof -
  have exp: "exportConversation e (Some i) s = (Json (json_of_ChatHistory c), s)"
    using stored i by (simp add: exportConversation_def Let_def)
  have valid: "validateConversation (json_of_ChatHistory c) = Inr ()"
    using idc msgs by (simp add: validateConversation_json)
  show ?thesis
    unfolding export_then_import_def exp
    using valid scan
    by (simp add: importConversation_def as_ChatHistory_json Let_def handleStorageError_def)
qed

text \<open>
  C4, as amended. For a stored conversation that passes validation (a non-empty
  identifier, and every message with a non-empty \<open>id\<close> and \<open>content\<close> and a non-zero
  \<open>timestamp\<close>), \<^verbatim>\<open>importConversation(exportConversation(id), replace)\<close> succeeds and makes
  active a conversation with the same messages. Its metadata equals the original's except
  for \<open>updatedAt\<close>, which is always set to the time of the import, and, when the identifier
  is in the index and \<open>replace\<close> is false, for the identifier (a new one) and the title (the
  old title followed by \<open>(Imported)\<close>). The one exception is an index that holds a \<^verbatim>\<open>null\<close>
  entry ahead of the identifier: the scan of the index for the identifier then throws, and
  the import returns \<^verbatim>\<open>null\<close>, reports the error and changes nothing else.
\<close>

theorem export_import_roundtrip:
  assumes "localStorage s (conversation_key e i) = Some (Json (json_of_ChatHistory c))"
    and "i \<noteq> []"
    and "id_conv (metadata c) \<noteq> []"
    and "\<forall>m\<in>set (messages c). id_msg m \<noteq> [] \<and> content m \<noteq> [] \<and> timestamp m \<noteq> 0"
  shows "case some_id (id_conv (metadata c)) (conversationsSubject s) of
      Inl error \<Rightarrow>
        export_then_import e i replace s
          = Some (None, s\<lparr>storageErrorSubject := Some (''Failed to import conversation'', error)\<rparr>)
    | Inr known \<Rightarrow>
        (\<exists>s' c'. export_then_import e i replace s = Some (Some (id_conv (metadata c')), s')
          \<and> currentConversationSubject s' = Some c'
          \<and> activeConversationId s' = Some (id_conv (metadata c'))
          \<and> messages c' = messages c
          \<and> metadata c' = imported_metadata e replace s (metadata c)
          \<and> (metadata c')\<lparr>id_conv := id_conv (metadata c), title := title (metadata c),
                            updatedAt := updatedAt (metadata c)\<rparr> = metadata c
          \<and> updatedAt (metadata c') = Date_now e (clock s)
          \<and> (if known \<and> \<not> replace
              then id_conv (metadata c') = uuidv4 e (uuids s)
              else id_conv (metadata c') = id_conv (metadata c)
                   \<and> title (metadata c') = title (metadata c)))"
proof (cases "some_id (id_conv (metadata c)) (conversationsSubject s)")
  case (Inl error)
  then show ?thesis
    using export_then_import_scan_throws [OF assms Inl, of replace] by simp
next
  case (Inr known)
  from export_then_import_result [OF assms Inr, of replace] obtain s' where
    "export_then_import e i replace s
        = Some (Some (id_conv (imported_metadata e replace s (metadata c))), s')"
    "currentConversationSubject s'
        = Some \<lparr>messages = messages c, metadata = imported_metadata e replace s (metadata c)\<rparr>"
    "activeConversationId s' = Some (id_conv (imported_metadata e replace s (metadata c)))"
    by blast
  then have "\<exists>s' c'. export_then_import e i replace s = Some (Some (id_conv (metadata c')), s')
      \<and> currentConversationSubject s' = Some c'
      \<and> activeConversationId s' = Some (id_conv (metadata c'))
      \<and> messages c' = messages c
      \<and> metadata c' = imported_metadata e replace s (metadata c)
      \<and> (metadata c')\<lparr>id_conv := id_conv (metadata c), title := title (metadata c),
                        updatedAt := updatedAt (metadata c)\<rparr> = metadata c
      \<and> updatedAt (metadata c') = Date_now e (clock s)
      \<and> (if known \<and> \<not> replace
          then id_conv (metadata c') = uuidv4 e (uuids s)
          else id_conv (metadata c') = id_conv (metadata c)
               \<and> title (metadata c') = title (metadata c))"
    using Inr
    by (intro exI [of _ s']
        exI [of _ "\<lparr>messages = messages c, metadata = imported_metadata e replace s (metadata c)\<rparr>"])
      (auto simp: imported_metadata_def)
  then show ?thesis
    by (simp add: Inr)
qed

lemma demo_stored:
  "localStorage demo_active (conversation_key demo_env ''conv-0'')
     = Some (Json (json_of_ChatHistory demo_conversation))"
  "id_conv (metadata demo_conversation) \<noteq> []"
  "\<forall>m\<in>set (messages demo_conversation). id_msg m \<noteq> [] \<and> content m \<noteq> [] \<and> timestamp m \<noteq> 0"
  "some_id (id_conv (metadata demo_conversation)) (conversationsSubject demo_active) = Inr True"
  by (simp_all add: demo_active_def demo_conversation_def demo_message_def some_id_def)

lemma demo_imported:
  "imported_metadata demo_env False demo_active (metadata demo_conversation)
     = (metadata demo_conversation)
         \<lparr>id_conv := ''conv-1'', title := Some ''Demo (Imported)'', updatedAt := 5002\<rparr>"
  "imported_metadata demo_env True demo_active (metadata demo_conversation)
     = (metadata demo_conversation)\<lparr>updatedAt := 5002\<rparr>"
  by (simp_all add: imported_metadata_def demo_active_def demo_conversation_def demo_env_def
      some_id_def)

theorem export_import_roundtrip_witness:
  "localStorage demo_active (conversation_key demo_env ''conv-0'')
     = Some (Json (json_of_ChatHistory demo_conversation))
   \<and> id_conv (metadata demo_conversation) \<noteq> []
   \<and> list_all (\<lambda>m. id_msg m \<noteq> [] \<and> content m \<noteq> [] \<and> timestamp m \<noteq> 0)
        (messages demo_conversation)
   \<and> some_id (id_conv (metadata demo_conversation)) (conversationsSubject demo_active) = Inr True
   \<and> active_messages (map_option snd (export_then_import demo_env ''conv-0'' False demo_active))
      = Some (messages demo_conversation)
   \<and> active_metadata (map_option snd (export_then_import demo_env ''conv-0'' False demo_active))
      = Some ((metadata demo_conversation)
                \<lparr>id_conv := ''conv-1'', title := Some ''Demo (Imported)'', updatedAt := 5002\<rparr>)"
proof -
  have nonempty: "''conv-0'' \<noteq> []" by simp
  from export_import_roundtrip [OF demo_stored(1) nonempty demo_stored(2,3), of False]
  have "\<exists>s' c'. export_then_import demo_env ''conv-0'' False demo_active
        = Some (Some (id_conv (metadata c')), s')
      \<and> currentConversationSubject s' = Some c'
      \<and> messages c' = messages demo_conversation
      \<and> metadata c' = imported_metadata demo_env False demo_active (metadata demo_conversation)"
    by (simp add: demo_stored(4)) blast
  then obtain s' c' where
    "export_then_import demo_env ''conv-0'' False demo_active = Some (Some (id_conv (metadata c')), s')"
    "currentConversationSubject s' = Some c'"
    "messages c' = messages demo_conversation"
    "metadata c' = imported_metadata demo_env False demo_active (metadata demo_conversation)"
    by blast
  then show ?thesis
    using demo_stored
    by (simp add: active_messages_def active_metadata_def demo_imported list_all_iff)
qed

text \<open>
  The equality of metadata of C4 as first stated fails on both paths. Without \<open>replace\<close>
  the stored conversation's identifier is in the index, so the import is renamed and its
  title changes too; with \<open>replace\<close> the identifier is kept and \<open>updatedAt\<close> still changes.
\<close>

theorem export_import_changes_metadata:
  "map_option title
     (active_metadata (map_option snd (export_then_import demo_env ''conv-0'' False demo_active)))
     = Some (Some ''Demo (Imported)'')
   \<and> title (metadata demo_conversation) = Some ''Demo''
   \<and> map_option id_conv
     (active_metadata (map_option snd (export_then_import demo_env ''conv-0'' True demo_active)))
     = Some ''conv-0''
   \<and> map_option updatedAt
     (active_metadata (map_option snd (export_then_import demo_env ''conv-0'' True demo_active)))
     = Some 5002
   \<and> updatedAt (metadata demo_conversation) = 4001"
proof -
  have nonempty: "''conv-0'' \<noteq> []" by simp
  from export_then_import_result [OF demo_stored(1) nonempty demo_stored(2,3,4), of False]
  obtain s1 where
    "export_then_import demo_env ''conv-0'' False demo_active
       = Some (Some (id_conv (imported_metadata demo_env False demo_active (metadata demo_conversation))), s1)"
    "currentConversationSubject s1
       = Some \<lparr>messages = messages demo_conversation,
               metadata = imported_metadata demo_env False demo_active (metadata demo_conversation)\<rparr>"
    by blast
  moreover
  from export_then_import_result [OF demo_stored(1) nonempty demo_stored(2,3,4), of True]
  obtain s2 where
    "export_then_import demo_env ''conv-0'' True demo_active
       = Some (Some (id_conv (imported_metadata demo_env True demo_active (metadata demo_conversation))), s2)"
    "currentConversationSubject s2
       = Some \<lparr>messages = messages demo_conversation,
               metadata = imported_metadata demo_env True demo_active (metadata demo_conversation)\<rparr>"
    by blast
  ultimately show ?thesis
    by (simp add: active_metadata_def demo_imported) (simp add: demo_conversation_def)
qed

section \<open>Toggling the favourite flag\<close>

lemma toggle_target_json: "toggle_target (json_of_ChatHistory c) = Inr ()"
  by (simp add: toggle_target_def json_of_ChatHistory_def json_of_ConversationMetadata_def)

lemma toggleFavorite_fails:
  assumes "case localStorage s (conversation_key e i) of
       None \<Rightarrow> True
     | Some (NotJson t) \<Rightarrow> True
     | Some (Json v) \<Rightarrow> (\<exists>error. toggle_target v = Inl error)"
  shows "\<exists>error. toggleFavorite e i s
      = Some (False, s\<lparr>storageErrorSubject := Some (''Failed to toggle favorite for '' @ i, error)\<rparr>)"
proof (cases "localStorage s (conversation_key e i)")
  case None
  then show ?thesis
    by (auto simp: toggleFavorite_def Let_def handleStorageError_def)
next
  case (Some stored)
  show ?thesis
  proof (cases stored)
    case (NotJson t)
    then show ?thesis
      using Some by (auto simp: toggleFavorite_def Let_def handleStorageError_def)
  next
    case (Json v)
    then obtain error where "toggle_target v = Inl error"
      using assms Some by auto
    then show ?thesis
      using Some Json by (auto simp: toggleFavorite_def Let_def handleStorageError_def)
  qed
qed

lemma toggleFavorite_succeeds:
  assumes "localStorage s (conversation_key e i) = Some (Json (json_of_ChatHistory c))"
  shows "toggleFavorite e i s
     = Some (isFavorite (metadata c) \<noteq> Some True,
             (if activeConversationId s = Some i
              then (snd (saveConversation e
                      (c\<lparr>metadata := (metadata c)
                          \<lparr>isFavorite := Some (isFavorite (metadata c) \<noteq> Some True)\<rparr>\<rparr>) s))
                   \<lparr>currentConversationSubject := Some
                      (c\<lparr>metadata := (metadata c)
                          \<lparr>isFavorite := Some (isFavorite (metadata c) \<noteq> Some True),
                           updatedAt := Date_now e (clock s)\<rparr>\<rparr>)\<rparr>
              else snd (saveConversation e
                      (c\<lparr>metadata := (metadata c)
                          \<lparr>isFavorite := Some (isFavorite (metadata c) \<noteq> Some True)\<rparr>\<rparr>) s)))"
  using assms
  by (simp add: toggleFavorite_def Let_def toggle_target_json as_ChatHistory_json split_beta
      saveConversation_result saveConversation_frame)

text \<open>
  A refused write is not a failure of \<^verbatim>\<open>toggleFavorite\<close>: \<^verbatim>\<open>saveConversation\<close> catches it
  and reports it, and the call goes on to return the new state of the flag. On a storage
  that is full, toggling a conversation that is not a favourite returns true, with the
  error of the save on the storage error channel and the stored conversation as it was,
  still not a favourite; the published conversation is the toggled one.
\<close>

theorem toggleFavorite_true_on_refused_write:
  "localStorage plain_store (conversation_key full_env ''conv-0'')
     = Some (Json (json_of_ChatHistory plain_conversation))
   \<and> isFavorite (metadata plain_conversation) = Some False
   \<and> map_option fst (toggleFavorite full_env ''conv-0'' plain_store) = Some True
   \<and> map_option (storageErrorSubject \<circ> snd) (toggleFavorite full_env ''conv-0'' plain_store)
      = Some (Some (''Failed to save conversation'', QuotaExceededError))
   \<and> map_option (localStorage \<circ> snd) (toggleFavorite full_env ''conv-0'' plain_store)
      = Some (localStorage plain_store)
   \<and> map_option (currentConversationSubject \<circ> snd) (toggleFavorite full_env ''conv-0'' plain_store)
      = Some (Some (plain_conversation\<lparr>metadata := (metadata plain_conversation)
                      \<lparr>isFavorite := Some True, updatedAt := 5002\<rparr>\<rparr>))"
proof -
  have key: "conversation_key full_env ''conv-0'' = conversation_key demo_env ''conv-0''"
    by (simp add: conversation_key_def full_env_def)
  have stored: "localStorage plain_store (conversation_key full_env ''conv-0'')
      = Some (Json (json_of_ChatHistory plain_conversation))"
    by (simp add: key plain_store_def)
  have fav: "isFavorite (metadata plain_conversation) = Some False"
    by (simp add: plain_conversation_def)
  have ident: "id_conv (metadata plain_conversation) = ''conv-0''"
    by (simp add: plain_conversation_def demo_conversation_def)
  have active: "activeConversationId plain_store = Some ''conv-0''"
    by (simp add: plain_store_def demo_active_def)
  have time: "Date_now full_env (clock plain_store) = 5002"
    by (simp add: plain_store_def demo_active_def full_env_def demo_env_def)
  have refuse: "\<And>stored' k v. \<not> setItem_ok full_env stored' k v"
    by (simp add: full_env_def)
  let ?c1 = "plain_conversation\<lparr>metadata := (metadata plain_conversation)
      \<lparr>isFavorite := Some True\<rparr>\<rparr>"
  have saved: "localStorage (snd (saveConversation full_env ?c1 plain_store))
        = localStorage plain_store"
    "storageErrorSubject (snd (saveConversation full_env ?c1 plain_store))
        = Some (''Failed to save conversation'', QuotaExceededError)"
    by (rule saveConversation_refused, rule refuse)+
  show ?thesis
    using toggleFavorite_succeeds [OF stored] stored fav active saved
    by (simp add: time)
qed

text \<open>
  C10, as amended. \<^verbatim>\<open>toggleFavorite\<close> returns false, and changes nothing but the error on
  the storage error channel, when nothing is stored under the identifier, when the stored
  text is not JSON, and when the parsed value has no metadata object to assign to: the
  storage, the index and the active conversation are as before. On a stored conversation
  it returns the new state of the flag, the negation of the old one, and publishes the
  toggled conversation when it is the active one; it stores the toggled conversation when
  the storage accepts the write, and when the storage refuses the write it still returns
  the new state of the flag, with the error of the save on the storage error channel and
  the storage as before. So false is returned both by a successful toggle of a favourite
  and by a call that found no conversation, and the return value does not tell them
  apart; and a returned true does not tell that the toggle was stored.
\<close>

theorem toggleFavorite_false_return:
  "((case localStorage s (conversation_key e i) of
       None \<Rightarrow> True
     | Some (NotJson t) \<Rightarrow> True
     | Some (Json v) \<Rightarrow> (\<exists>error. toggle_target v = Inl error))
    \<longrightarrow> (\<exists>error. toggleFavorite e i s
           = Some (False,
                   s\<lparr>storageErrorSubject := Some (''Failed to toggle favorite for '' @ i, error)\<rparr>)))
   \<and> (localStorage s (conversation_key e i) = Some (Json (json_of_ChatHistory c))
      \<longrightarrow> (\<exists>s'. toggleFavorite e i s = Some (isFavorite (metadata c) \<noteq> Some True, s')
             \<and> (activeConversationId s = Some i \<longrightarrow>
                  currentConversationSubject s'
                    = Some (c\<lparr>metadata := (metadata c)
                              \<lparr>isFavorite := Some (isFavorite (metadata c) \<noteq> Some True),
                               updatedAt := Date_now e (clock s)\<rparr>\<rparr>))
             \<and> (setItem_ok e (localStorage s) (conversation_key e (id_conv (metadata c)))
                    (JSON_stringify (json_of_ChatHistory
                       (c\<lparr>metadata := (metadata c)
                           \<lparr>isFavorite := Some (isFavorite (metadata c) \<noteq> Some True),
                            updatedAt := Date_now e (clock s)\<rparr>\<rparr>)))
                 \<longrightarrow> conversation_key e (id_conv (metadata c)) \<noteq> index_key e
                 \<longrightarrow> localStorage s' (conversation_key e (id_conv (metadata c)))
                       = Some (JSON_stringify (json_of_ChatHistory
                           (c\<lparr>metadata := (metadata c)
                               \<lparr>isFavorite := Some (isFavorite (metadata c) \<noteq> Some True),
                                updatedAt := Date_now e (clock s)\<rparr>\<rparr>))))))
   \<and> (localStorage s (conversation_key e i) = Some (Json (json_of_ChatHistory c))
        \<and> isFavorite (metadata c) = Some True
        \<and> localStorage s (conversation_key e j) = None
      \<longrightarrow> map_option fst (toggleFavorite e i s) = Some False
          \<and> map_option fst (toggleFavorite e j s) = Some False)
   \<and> (localStorage s (conversation_key e i) = Some (Json (json_of_ChatHistory c))
        \<and> \<not> setItem_ok e (localStorage s) (conversation_key e (id_conv (metadata c)))
              (JSON_stringify (json_of_ChatHistory
                 (c\<lparr>metadata := (metadata c)
                     \<lparr>isFavorite := Some (isFavorite (metadata c) \<noteq> Some True),
                      updatedAt := Date_now e (clock s)\<rparr>\<rparr>)))
      \<longrightarrow> (\<exists>s'. toggleFavorite e i s = Some (isFavorite (metadata c) \<noteq> Some True, s')
             \<and> storageErrorSubject s'
                 = Some (''Failed to save conversation'', QuotaExceededError)
             \<and> localStorage s' = localStorage s))"
proof (intro conjI impI)
  assume "case localStorage s (conversation_key e i) of
       None \<Rightarrow> True
     | Some (NotJson t) \<Rightarrow> True
     | Some (Json v) \<Rightarrow> (\<exists>error. toggle_target v = Inl error)"
  then show "\<exists>error. toggleFavorite e i s
      = Some (False, s\<lparr>storageErrorSubject := Some (''Failed to toggle favorite for '' @ i, error)\<rparr>)"
    by (rule toggleFavorite_fails)
next
  assume stored: "localStorage s (conversation_key e i) = Some (Json (json_of_ChatHistory c))"
  let ?c1 = "c\<lparr>metadata := (metadata c)
      \<lparr>isFavorite := Some (isFavorite (metadata c) \<noteq> Some True)\<rparr>\<rparr>"
  let ?c2 = "c\<lparr>metadata := (metadata c)
      \<lparr>isFavorite := Some (isFavorite (metadata c) \<noteq> Some True),
       updatedAt := Date_now e (clock s)\<rparr>\<rparr>"
  let ?saved = "snd (saveConversation e ?c1 s)"
  let ?s' = "if activeConversationId s = Some i
             then ?saved\<lparr>currentConversationSubject := Some ?c2\<rparr> else ?saved"
  have res: "toggleFavorite e i s = Some (isFavorite (metadata c) \<noteq> Some True, ?s')"
    using toggleFavorite_succeeds [OF stored] by simp
  have c2: "fst (saveConversation e ?c1 s) = ?c2"
    by (simp add: saveConversation_result)
  have written: "localStorage ?s' (conversation_key e (id_conv (metadata c)))
      = Some (JSON_stringify (json_of_ChatHistory ?c2))"
    if "setItem_ok e (localStorage s) (conversation_key e (id_conv (metadata c)))
          (JSON_stringify (json_of_ChatHistory ?c2))"
      and "conversation_key e (id_conv (metadata c)) \<noteq> index_key e"
  proof -
    have "localStorage ?saved (conversation_key e (id_conv (metadata ?c1)))
        = Some (JSON_stringify (json_of_ChatHistory (fst (saveConversation e ?c1 s))))"
      by (rule saveConversation_written) (use that in \<open>simp_all add: c2\<close>)
    then show ?thesis by (simp add: c2)
  qed
  show "\<exists>s'. toggleFavorite e i s = Some (isFavorite (metadata c) \<noteq> Some True, s')
      \<and> (activeConversationId s = Some i \<longrightarrow> currentConversationSubject s' = Some ?c2)
      \<and> (setItem_ok e (localStorage s) (conversation_key e (id_conv (metadata c)))
             (JSON_stringify (json_of_ChatHistory ?c2))
          \<longrightarrow> conversation_key e (id_conv (metadata c)) \<noteq> index_key e
          \<longrightarrow> localStorage s' (conversation_key e (id_conv (metadata c)))
                = Some (JSON_stringify (json_of_ChatHistory ?c2)))"
    apply (rule exI [of _ ?s'])
    using res written by simp
next
  assume a: "localStorage s (conversation_key e i) = Some (Json (json_of_ChatHistory c))
      \<and> isFavorite (metadata c) = Some True
      \<and> localStorage s (conversation_key e j) = None"
  then show "map_option fst (toggleFavorite e i s) = Some False"
    using toggleFavorite_succeeds [of s e i c] by simp
  from a have "case localStorage s (conversation_key e j) of
       None \<Rightarrow> True
     | Some (NotJson t) \<Rightarrow> True
     | Some (Json v) \<Rightarrow> (\<exists>error. toggle_target v = Inl error)"
    by simp
  from toggleFavorite_fails [OF this]
  show "map_option fst (toggleFavorite e j s) = Some False"
    by auto
next
  let ?c1 = "c\<lparr>metadata := (metadata c)
      \<lparr>isFavorite := Some (isFavorite (metadata c) \<noteq> Some True)\<rparr>\<rparr>"
  let ?c2 = "c\<lparr>metadata := (metadata c)
      \<lparr>isFavorite := Some (isFavorite (metadata c) \<noteq> Some True),
       updatedAt := Date_now e (clock s)\<rparr>\<rparr>"
  let ?saved = "snd (saveConversation e ?c1 s)"
  let ?s' = "if activeConversationId s = Some i
             then ?saved\<lparr>currentConversationSubject := Some ?c2\<rparr> else ?saved"
  assume a: "localStorage s (conversation_key e i) = Some (Json (json_of_ChatHistory c))
      \<and> \<not> setItem_ok e (localStorage s) (conversation_key e (id_conv (metadata c)))
            (JSON_stringify (json_of_ChatHistory ?c2))"
  have res: "toggleFavorite e i s = Some (isFavorite (metadata c) \<noteq> Some True, ?s')"
    using toggleFavorite_succeeds [of s e i c] a by simp
  have c2: "fst (saveConversation e ?c1 s) = ?c2"
    by (simp add: saveConversation_result)
  have no: "\<not> setItem_ok e (localStorage s) (conversation_key e (id_conv (metadata ?c1)))
      (JSON_stringify (json_of_ChatHistory (fst (saveConversation e ?c1 s))))"
    using a by (simp add: c2)
  have "localStorage ?saved = localStorage s"
    "storageErrorSubject ?saved = Some (''Failed to save conversation'', QuotaExceededError)"
    using saveConversation_refused [OF no] by simp_all
  then have "storageErrorSubject ?s' = Some (''Failed to save conversation'', QuotaExceededError)"
    "localStorage ?s' = localStorage s"
    by simp_all
  with res show "\<exists>s'. toggleFavorite e i s = Some (isFavorite (metadata c) \<noteq> Some True, s')
      \<and> storageErrorSubject s' = Some (''Failed to save conversation'', QuotaExceededError)
      \<and> localStorage s' = localStorage s"
    by blast
qed

theorem toggleFavorite_false_return_witness:
  "localStorage demo_active (conversation_key demo_env ''conv-0'')
     = Some (Json (json_of_ChatHistory demo_conversation))
   \<and> isFavorite (metadata demo_conversation) = Some True
   \<and> localStorage demo_active (conversation_key demo_env ''missing'') = None
   \<and> map_option fst (toggleFavorite demo_env ''conv-0'' demo_active) = Some False
   \<and> map_option fst (toggleFavorite demo_env ''missing'' demo_active) = Some False
   \<and> map_option (storageErrorSubject \<circ> snd) (toggleFavorite demo_env ''missing'' demo_active)
      = Some (Some (''Failed to toggle favorite for missing'',
                    Error ''Conversation missing not found''))
   \<and> map_option (localStorage \<circ> snd) (toggleFavorite demo_env ''missing'' demo_active)
      = Some (localStorage demo_active)
   \<and> map_option (currentConversationSubject \<circ> snd) (toggleFavorite demo_env ''conv-0'' demo_active)
      = Some (Some (demo_conversation\<lparr>metadata := (metadata demo_conversation)
                      \<lparr>isFavorite := Some False, updatedAt := 5002\<rparr>\<rparr>))
   \<and> localStorage plain_store (conversation_key full_env ''conv-0'')
      = Some (Json (json_of_ChatHistory plain_conversation))
   \<and> map_option fst (toggleFavorite full_env ''conv-0'' plain_store) = Some True
   \<and> map_option (storageErrorSubject \<circ> snd) (toggleFavorite full_env ''conv-0'' plain_store)
      = Some (Some (''Failed to save conversation'', QuotaExceededError))
   \<and> map_option (localStorage \<circ> snd) (toggleFavorite full_env ''conv-0'' plain_store)
      = Some (localStorage plain_store)"
proof -
  have stored: "localStorage demo_active (conversation_key demo_env ''conv-0'')
      = Some (Json (json_of_ChatHistory demo_conversation))"
    by (simp add: demo_active_def)
  have fav: "isFavorite (metadata demo_conversation) = Some True"
    by (simp add: demo_conversation_def)
  have missing: "localStorage demo_active (conversation_key demo_env ''missing'') = None"
    by (simp add: demo_active_def conversation_key_def)
  note inst = toggleFavorite_false_return
    [of demo_active demo_env "''conv-0''" demo_conversation "''missing''"]
  from inst [THEN conjunct2, THEN conjunct2, THEN conjunct1] stored fav missing
  have both: "map_option fst (toggleFavorite demo_env ''conv-0'' demo_active) = Some False"
    "map_option fst (toggleFavorite demo_env ''missing'' demo_active) = Some False"
    by simp_all
  from inst [THEN conjunct2, THEN conjunct1] stored
  obtain s' where "toggleFavorite demo_env ''conv-0'' demo_active
        = Some (isFavorite (metadata demo_conversation) \<noteq> Some True, s')"
    "activeConversationId demo_active = Some ''conv-0'' \<longrightarrow>
       currentConversationSubject s'
         = Some (demo_conversation\<lparr>metadata := (metadata demo_conversation)
              \<lparr>isFavorite := Some (isFavorite (metadata demo_conversation) \<noteq> Some True),
               updatedAt := Date_now demo_env (clock demo_active)\<rparr>\<rparr>)"
    by blast
  then have success: "map_option (currentConversationSubject \<circ> snd)
        (toggleFavorite demo_env ''conv-0'' demo_active)
      = Some (Some (demo_conversation\<lparr>metadata := (metadata demo_conversation)
                      \<lparr>isFavorite := Some False, updatedAt := 5002\<rparr>\<rparr>))"
    by (simp add: fav) (simp add: demo_active_def demo_env_def)
  have failed: "toggleFavorite demo_env ''missing'' demo_active
      = Some (False, demo_active\<lparr>storageErrorSubject :=
          Some (''Failed to toggle favorite for missing'',
                Error ''Conversation missing not found'')\<rparr>)"
    using missing by (simp add: toggleFavorite_def Let_def handleStorageError_def)
  have key: "conversation_key full_env ''conv-0'' = conversation_key demo_env ''conv-0''"
    by (simp add: conversation_key_def full_env_def)
  have stored': "localStorage plain_store (conversation_key full_env ''conv-0'')
      = Some (Json (json_of_ChatHistory plain_conversation))"
    by (simp add: key plain_store_def)
  have fav': "isFavorite (metadata plain_conversation) = Some False"
    by (simp add: plain_conversation_def)
  have refuse: "\<And>stored'' k v. \<not> setItem_ok full_env stored'' k v"
    by (simp add: full_env_def)
  from toggleFavorite_false_return
    [of plain_store full_env "''conv-0''" plain_conversation "''missing''",
     THEN conjunct2, THEN conjunct2, THEN conjunct2] stored' refuse
  obtain s'' where "toggleFavorite full_env ''conv-0'' plain_store
        = Some (isFavorite (metadata plain_conversation) \<noteq> Some True, s'')"
    "storageErrorSubject s'' = Some (''Failed to save conversation'', QuotaExceededError)"
    "localStorage s'' = localStorage plain_store"
    by blast
  then have refused: "map_option fst (toggleFavorite full_env ''conv-0'' plain_store) = Some True"
    "map_option (storageErrorSubject \<circ> snd) (toggleFavorite full_env ''conv-0'' plain_store)
      = Some (Some (''Failed to save conversation'', QuotaExceededError))"
    "map_option (localStorage \<circ> snd) (toggleFavorite full_env ''conv-0'' plain_store)
      = Some (localStorage plain_store)"
    by (simp_all add: fav')
  show ?thesis
    using stored fav missing both success failed stored' refused by simp
qed

section \<open>The stream assembler\<close>

lemma processLine_unparsable:
  "unparsable_line env line \<Longrightarrow> processLine env st line = st"
  by (simp add: processLine_def unparsable_line_def Let_def)

lemma processLine_delta:
  assumes "delta_line env line d"
  shows "content (accumulatedMessage (processLine env st line)) = content (accumulatedMessage st) @ d"
    and "isPending (accumulatedMessage (processLine env st line)) = isPending (accumulatedMessage st)"
    and "sender (accumulatedMessage (processLine env st line)) = sender (accumulatedMessage st)"
    and "isError (accumulatedMessage (processLine env st line)) = isError (accumulatedMessage st)"
    and "responseSubject (processLine env st line)
         = responseSubject st @ [(accumulatedMessage st)\<lparr>content := content (accumulatedMessage st) @ d\<rparr>]"
    and "completed (processLine env st line) = completed st"
    and "errorState (service (processLine env st line)) = errorState (service st)"
    and "loadingState (service (processLine env st line)) = loadingState (service st)"
    and "defaultModel (service (processLine env st line)) = defaultModel (service st)"
proof -
  obtain event where p: "trim (strip_data_prefix line) \<noteq> []"
    "JSON_parse_line env (trim (strip_data_prefix line)) = Some event"
    "carries_delta event d"
    using assms by (auto simp: delta_line_def split: option.splits)
  have ch: "truthy (field (Some event) ''choices'')"
    and dc: "opt_chain (opt_chain (index0 (field (Some event) ''choices'')) ''delta'') ''content''
        = Some (JStr d)"
    and d: "d \<noteq> []"
    using p(3) by (simp_all add: carries_delta_def)
  have "event \<noteq> JNull"
    using ch by (auto simp: field_def)
  then have gp: "get_prop (Some event) ''choices'' = Inr (field (Some event) ''choices'')"
    by (cases event) (simp_all add: field_def)
  note defs = processLine_def Let_def p(1,2) gp ch dc d emit_def updateTokenUsage_def
  show "content (accumulatedMessage (processLine env st line)) = content (accumulatedMessage st) @ d"
    by (simp add: defs)
  show "isPending (accumulatedMessage (processLine env st line)) = isPending (accumulatedMessage st)"
    by (simp add: defs)
  show "sender (accumulatedMessage (processLine env st line)) = sender (accumulatedMessage st)"
    by (simp add: defs)
  show "isError (accumulatedMessage (processLine env st line)) = isError (accumulatedMessage st)"
    by (simp add: defs)
  show "responseSubject (processLine env st line)
         = responseSubject st @ [(accumulatedMessage st)\<lparr>content := content (accumulatedMessage st) @ d\<rparr>]"
    by (simp add: defs)
  show "completed (processLine env st line) = completed st"
    by (simp add: defs)
  show "errorState (service (processLine env st line)) = errorState (service st)"
    by (simp add: defs)
  show "loadingState (service (processLine env st line)) = loadingState (service st)"
    by (simp add: defs)
  show "defaultModel (service (processLine env st line)) = defaultModel (service st)"
    by (simp add: defs)
qed

lemma map_upt_from_1:
  "map f [Suc 0..<Suc (Suc n)] = f (Suc 0) # map (\<lambda>k. f (Suc k)) [Suc 0..<Suc n]"
proof -
  have "[Suc 0..<Suc (Suc n)] = Suc 0 # [Suc (Suc 0)..<Suc (Suc n)]"
    by (simp add: upt_conv_Cons del: upt_Suc)
  also have "[Suc (Suc 0)..<Suc (Suc n)] = map Suc [Suc 0..<Suc n]"
    by (simp only: map_Suc_upt)
  finally show ?thesis
    by (simp add: comp_def del: upt_Suc)
qed

lemma prefixes_Cons:
  "map (\<lambda>n. c0 @ concat (take n (d # ds))) [Suc 0..<Suc (Suc (length ds))]
   = (c0 @ d) # map (\<lambda>n. (c0 @ d) @ concat (take n ds)) [Suc 0..<Suc (length ds)]"
  by (simp add: map_upt_from_1 del: upt_Suc)

lemma foldl_processLine_deltas:
  assumes "list_all2 (delta_line env) lines ds"
  shows "content (accumulatedMessage (foldl (processLine env) st lines))
           = content (accumulatedMessage st) @ concat ds
      \<and> isPending (accumulatedMessage (foldl (processLine env) st lines))
           = isPending (accumulatedMessage st)
      \<and> sender (accumulatedMessage (foldl (processLine env) st lines))
           = sender (accumulatedMessage st)
      \<and> isError (accumulatedMessage (foldl (processLine env) st lines))
           = isError (accumulatedMessage st)
      \<and> completed (foldl (processLine env) st lines) = completed st
      \<and> errorState (service (foldl (processLine env) st lines)) = errorState (service st)
      \<and> map content (responseSubject (foldl (processLine env) st lines))
           = map content (responseSubject st)
             @ map (\<lambda>n. content (accumulatedMessage st) @ concat (take n ds))
                 [Suc 0..<Suc (length ds)]
      \<and> map isPending (responseSubject (foldl (processLine env) st lines))
           = map isPending (responseSubject st)
             @ replicate (length ds) (isPending (accumulatedMessage st))
      \<and> map sender (responseSubject (foldl (processLine env) st lines))
           = map sender (responseSubject st)
             @ replicate (length ds) (sender (accumulatedMessage st))
      \<and> map isError (responseSubject (foldl (processLine env) st lines))
           = map isError (responseSubject st)
             @ replicate (length ds) (isError (accumulatedMessage st))"
  using assms
proof (induction lines ds arbitrary: st rule: list_all2_induct)
  case Nil
  then show ?case by simp
next
  case (Cons line lines d ds)
  note step = processLine_delta [OF Cons.hyps(1), of st]
  show ?case
    using Cons.IH [of "processLine env st line"]
    by (simp add: step prefixes_Cons del: upt_Suc)
qed

lemma foldl_processLine_skip:
  "unparsable_line env bad \<Longrightarrow>
   foldl (processLine env) st (before @ bad # after) = foldl (processLine env) st (before @ after)"
  by (simp add: processLine_unparsable)

lemma readStream_chunks:
  "readStream env startTime (map Chunk chunks) st
   = readStream env startTime [] (foldl (processLine env) st (concat (map chunk_lines chunks)))"
  by (induction chunks arbitrary: st) simp_all

lemma readStream_done:
  "responseSubject (readStream env startTime [] st)
     = responseSubject st
       @ [(accumulatedMessage st)
            \<lparr>isPending := Some False,
             metadata_msg := Some ((spread_metadata (accumulatedMessage st))
                \<lparr>processingTime := Some (end_time env - startTime),
                 model := Some (defaultModel (service st))\<rparr>)\<rparr>]"
  "content (accumulatedMessage (readStream env startTime [] st)) = content (accumulatedMessage st)"
  "isPending (accumulatedMessage (readStream env startTime [] st)) = Some False"
  "completed (readStream env startTime [] st)"
  "errorState (service (readStream env startTime [] st)) = errorState (service st)"
  "isLoading (loadingState (service (readStream env startTime [] st))) = False"
  by (simp_all add: Let_def emit_def setLoading_def)

text \<open>The whole of a streaming request whose lines all carry content deltas.\<close>

lemma assemble_deltas:
  assumes "list_all2 (delta_line env) (concat (map chunk_lines chunks)) ds"
  shows "map content (responseSubject (assemble env u t0 t1 a chunks))
           = map (\<lambda>n. concat (take n ds)) [1..<Suc (length ds)] @ [concat ds]"
    and "map isPending (responseSubject (assemble env u t0 t1 a chunks))
           = replicate (length ds) (Some True) @ [Some False]"
    and "map sender (responseSubject (assemble env u t0 t1 a chunks))
           = replicate (Suc (length ds)) AI"
    and "map isError (responseSubject (assemble env u t0 t1 a chunks))
           = replicate (Suc (length ds)) None"
    and "content (accumulatedMessage (assemble env u t0 t1 a chunks)) = concat ds"
    and "completed (assemble env u t0 t1 a chunks)"
    and "\<not> hasError (errorState (service (assemble env u t0 t1 a chunks)))"
    and "\<not> isLoading (loadingState (service (assemble env u t0 t1 a chunks)))"
proof -
  let ?st0 = "\<lparr>accumulatedMessage =
          \<lparr>id_msg = u, sender = AI, content = [], timestamp = t1,
           isError = None, isPending = Some True, metadata_msg = None\<rparr>,
        responseSubject = [],
        completed = False,
        service = clearError (setLoading True (Some ''Generating AI response...'') None a)\<rparr>"
  let ?st1 = "foldl (processLine env) ?st0 (concat (map chunk_lines chunks))"
  have run: "assemble env u t0 t1 a chunks = readStream env t0 [] ?st1"
    by (simp add: assemble_def sendMessage_streaming_def streamChatCompletion_def
        setupStreamingRequest_def readStream_chunks)
  note f = foldl_processLine_deltas [OF assms, of ?st0]
  show "map content (responseSubject (assemble env u t0 t1 a chunks))
           = map (\<lambda>n. concat (take n ds)) [1..<Suc (length ds)] @ [concat ds]"
    unfolding run using f by (simp add: readStream_done del: upt_Suc readStream.simps)
  show "map isPending (responseSubject (assemble env u t0 t1 a chunks))
           = replicate (length ds) (Some True) @ [Some False]"
    unfolding run using f by (simp add: readStream_done del: readStream.simps)
  show "map sender (responseSubject (assemble env u t0 t1 a chunks))
           = replicate (Suc (length ds)) AI"
    unfolding run using f by (simp add: readStream_done replicate_append_same del: readStream.simps)
  show "map isError (responseSubject (assemble env u t0 t1 a chunks))
           = replicate (Suc (length ds)) None"
    unfolding run using f by (simp add: readStream_done replicate_append_same del: readStream.simps)
  show "content (accumulatedMessage (assemble env u t0 t1 a chunks)) = concat ds"
    unfolding run using f by (simp add: readStream_done del: readStream.simps)
  show "completed (assemble env u t0 t1 a chunks)"
    unfolding run by (simp add: readStream_done del: readStream.simps)
  show "\<not> hasError (errorState (service (assemble env u t0 t1 a chunks)))"
    unfolding run using f by (simp add: readStream_done clearError_def del: readStream.simps)
  show "\<not> isLoading (loadingState (service (assemble env u t0 t1 a chunks)))"
    unfolding run by (simp add: readStream_done del: readStream.simps)
qed

lemma demo_lines:
  "concat (map chunk_lines demo_chunks)
   = [''data: '' @ delta_text ''He'', ''data: '' @ delta_text ''llo'']"
  by (simp add: demo_chunks_def chunk_lines_def trim_def white_space_def delta_text_def
      quoted_def)

lemma demo_lines_bad:
  "concat (map chunk_lines demo_chunks_bad)
   = [''data: '' @ delta_text ''He'', ''data: '' @ cut_text, ''data: '' @ delta_text ''llo'']"
  by (simp add: demo_chunks_bad_def chunk_lines_def trim_def white_space_def delta_text_def
      cut_text_def quoted_def)

lemma demo_delta_lines:
  "delta_line demo_stream_env (''data: '' @ delta_text ''He'') ''He''"
  "delta_line demo_stream_env (''data: '' @ delta_text ''llo'') ''llo''"
  "unparsable_line demo_stream_env (''data: '' @ cut_text)"
  by (simp_all add: delta_line_def unparsable_line_def demo_stream_env_def demo_parse_def
      delta_event_def carries_delta_def strip_data_prefix_def trim_def white_space_def
      field_def opt_chain_def delta_text_def cut_text_def quoted_def letters_def Let_def)

text \<open>
  C2. When the lines of the response, each whole within one chunk, are events carrying the
  non-empty content deltas \<open>d1, ..., dn\<close> and the stream then ends, the contents of the
  messages emitted for the events are exactly the prefix concatenations \<open>d1\<close>, \<open>d1 d2\<close>,
  ..., \<open>d1 ... dn\<close>, in this order and each still pending, so the content grows strictly and
  never shrinks or reorders. At the end of the stream the assembler emits the accumulated
  message once more, with the whole content \<open>d1 ... dn\<close> and \<open>isPending\<close> false: this is
  the final emitted message. The subject then completes without an error.
\<close>

theorem stream_emits_prefixes_then_final:
  assumes "list_all2 (delta_line env) (concat (map chunk_lines chunks)) ds"
  shows "map content (responseSubject (assemble env u t0 t1 a chunks))
           = map (\<lambda>n. concat (take n ds)) [1..<Suc (length ds)] @ [concat ds]
      \<and> map isPending (responseSubject (assemble env u t0 t1 a chunks))
           = replicate (length ds) (Some True) @ [Some False]
      \<and> isPending (last (responseSubject (assemble env u t0 t1 a chunks))) = Some False
      \<and> completed (assemble env u t0 t1 a chunks)
      \<and> \<not> hasError (errorState (service (assemble env u t0 t1 a chunks)))"
proof -
  note r = assemble_deltas [OF assms, of u t0 t1 a]
  have "responseSubject (assemble env u t0 t1 a chunks) \<noteq> []"
    using r(2) by auto
  then have "isPending (last (responseSubject (assemble env u t0 t1 a chunks)))
      = last (map isPending (responseSubject (assemble env u t0 t1 a chunks)))"
    by (simp add: last_map)
  also have "\<dots> = Some False"
    by (simp add: r(2))
  finally show ?thesis
    using r(1,2,6,7) by simp
qed

theorem stream_emits_prefixes_then_final_witness:
  "list_all2 (delta_line demo_stream_env) (concat (map chunk_lines demo_chunks)) [''He'', ''llo'']
   \<and> map content (responseSubject (assemble demo_stream_env ''msg-0'' 8000 8001 idle_service demo_chunks))
      = [''He'', ''Hello'', ''Hello'']
   \<and> map isPending (responseSubject (assemble demo_stream_env ''msg-0'' 8000 8001 idle_service demo_chunks))
      = [Some True, Some True, Some False]
   \<and> completed (assemble demo_stream_env ''msg-0'' 8000 8001 idle_service demo_chunks)"
proof -
  have h: "list_all2 (delta_line demo_stream_env) (concat (map chunk_lines demo_chunks))
      [''He'', ''llo'']"
    using demo_delta_lines by (simp add: demo_lines)
  have "map (\<lambda>n. concat (take n [''He'', ''llo''])) [1..<Suc (length [''He'', ''llo''])]
      = [''He'', ''Hello'']"
    by (simp add: upt_conv_Cons)
  then show ?thesis
    using stream_emits_prefixes_then_final [OF h, of "''msg-0''" 8000 8001 idle_service] h
    by simp
qed

text \<open>
  C6. When the lines of the response, each whole within one chunk and in whatever
  chunking, are lines carrying content deltas, then one line that
  \<^verbatim>\<open>JSON.parse\<close> rejects, then further lines carrying content deltas, the assembler applies
  every delta on both sides of the rejected line, in order, exactly as if that line were
  absent: the accumulated content is the concatenation of all the deltas, no error message
  is emitted and no error is signalled, and at the end of input the subject completes with
  a final message whose \<open>isPending\<close> is false. With one delta on each side this is the
  unparsable line between two valid delta events.
\<close>

theorem malformed_line_is_skipped:
  assumes "concat (map chunk_lines chunks) = before @ bad # after"
    and "list_all2 (delta_line env) before ds1"
    and "unparsable_line env bad"
    and "list_all2 (delta_line env) after ds2"
  shows "content (accumulatedMessage (assemble env u t0 t1 a chunks)) = concat (ds1 @ ds2)
      \<and> map content (responseSubject (assemble env u t0 t1 a chunks))
           = map (\<lambda>n. concat (take n (ds1 @ ds2))) [1..<Suc (length (ds1 @ ds2))]
             @ [concat (ds1 @ ds2)]
      \<and> map isPending (responseSubject (assemble env u t0 t1 a chunks))
           = replicate (length (ds1 @ ds2)) (Some True) @ [Some False]
      \<and> map sender (responseSubject (assemble env u t0 t1 a chunks))
           = replicate (Suc (length (ds1 @ ds2))) AI
      \<and> map isError (responseSubject (assemble env u t0 t1 a chunks))
           = replicate (Suc (length (ds1 @ ds2))) None
      \<and> completed (assemble env u t0 t1 a chunks)
      \<and> \<not> hasError (errorState (service (assemble env u t0 t1 a chunks)))
      \<and> \<not> isLoading (loadingState (service (assemble env u t0 t1 a chunks)))"
proof -
  let ?st0 = "\<lparr>accumulatedMessage =
          \<lparr>id_msg = u, sender = AI, content = [], timestamp = t1,
           isError = None, isPending = Some True, metadata_msg = None\<rparr>,
        responseSubject = [],
        completed = False,
        service = clearError (setLoading True (Some ''Generating AI response...'') None a)\<rparr>"
  have run: "assemble env u t0 t1 a chunks
      = readStream env t0 [] (foldl (processLine env) ?st0 (before @ bad # after))"
    by (simp add: assemble_def sendMessage_streaming_def streamChatCompletion_def
        setupStreamingRequest_def readStream_chunks assms(1) del: readStream.simps)
  have all: "list_all2 (delta_line env) (before @ after) (ds1 @ ds2)"
    using assms(2,4) by (rule list_all2_appendI)
  note f = foldl_processLine_deltas [OF all, of ?st0]
  have skip: "foldl (processLine env) ?st0 (before @ bad # after)
      = foldl (processLine env) ?st0 (before @ after)"
    using assms(3) by (rule foldl_processLine_skip)
  show ?thesis
    unfolding run skip using f
    by (simp add: readStream_done clearError_def replicate_append_same
        del: readStream.simps upt_Suc foldl_append)
qed

theorem malformed_line_is_skipped_witness:
  "concat (map chunk_lines demo_chunks_bad)
     = [''data: '' @ delta_text ''He''] @ (''data: '' @ cut_text) # [''data: '' @ delta_text ''llo'']
   \<and> list_all2 (delta_line demo_stream_env) [''data: '' @ delta_text ''He''] [''He'']
   \<and> unparsable_line demo_stream_env (''data: '' @ cut_text)
   \<and> list_all2 (delta_line demo_stream_env) [''data: '' @ delta_text ''llo''] [''llo'']
   \<and> content (accumulatedMessage
        (assemble demo_stream_env ''msg-0'' 8000 8001 idle_service demo_chunks_bad)) = ''Hello''
   \<and> map content (responseSubject
        (assemble demo_stream_env ''msg-0'' 8000 8001 idle_service demo_chunks_bad))
      = [''He'', ''Hello'', ''Hello'']
   \<and> map isPending (responseSubject
        (assemble demo_stream_env ''msg-0'' 8000 8001 idle_service demo_chunks_bad))
      = [Some True, Some True, Some False]
   \<and> completed (assemble demo_stream_env ''msg-0'' 8000 8001 idle_service demo_chunks_bad)"
proof -
  have h1: "concat (map chunk_lines demo_chunks_bad)
      = [''data: '' @ delta_text ''He''] @ (''data: '' @ cut_text) # [''data: '' @ delta_text ''llo'']"
    by (simp add: demo_lines_bad)
  have h2: "list_all2 (delta_line demo_stream_env) [''data: '' @ delta_text ''He''] [''He'']"
    using demo_delta_lines by simp
  have h3: "unparsable_line demo_stream_env (''data: '' @ cut_text)"
    by (rule demo_delta_lines)
  have h4: "list_all2 (delta_line demo_stream_env) [''data: '' @ delta_text ''llo''] [''llo'']"
    using demo_delta_lines by simp
  have "map (\<lambda>n. concat (take n ([''He''] @ [''llo''])))
          [1..<Suc (length ([''He''] @ [''llo'']))]
      = [''He'', ''Hello'']"
    by (simp add: upt_conv_Cons)
  then show ?thesis
    using malformed_line_is_skipped [OF h1 h2 h3 h4, of "''msg-0''" 8000 8001 idle_service]
      h1 h2 h3 h4
    by simp
qed

end
